theory Spec2Isabelle
  imports Complex_Main "HOL-Library.Word"
begin

unbundle bit_operations_syntax

section \<open>Machine types and host memory\<close>

type_synonym u8 = "8 word"
type_synonym u16 = "16 word"

text \<open>
  The value of \<^verbatim>\<open>__BYTE_ORDER__\<close> on the host the utility is compiled for. The
  preprocessor test of app.c, line 40, compares it with \<^verbatim>\<open>__ORDER_BIG_ENDIAN__\<close>.
\<close>

datatype byte_order = ORDER_LITTLE_ENDIAN | ORDER_BIG_ENDIAN | ORDER_PDP_ENDIAN

text \<open>
  \<^verbatim>\<open>APP_SWAP_ENDIAN_16(num)\<close>, app.c lines 40-44. On a host that is not big endian it
  is the assignment \<^verbatim>\<open>(num) = ((num) << 8) | ((num) >> 8)\<close>: the \<^verbatim>\<open>uint16_t\<close>
  operand is promoted to a 32-bit \<^verbatim>\<open>int\<close>, shifted and or-ed there, and the
  assignment truncates the result to 16 bits. On a big-endian host the macro expands to
  nothing. The model returns the new value of \<^verbatim>\<open>num\<close>.
\<close>

definition APP_SWAP_ENDIAN_16 :: "byte_order \<Rightarrow> u16 \<Rightarrow> u16" where
  "APP_SWAP_ENDIAN_16 bo num =
     (if bo \<noteq> ORDER_BIG_ENDIAN
      then ucast (push_bit 8 (ucast num :: 32 word) OR drop_bit 8 (ucast num :: 32 word))
      else num)"

text \<open>The two bytes of a 16-bit value.\<close>

definition hi8 :: "u16 \<Rightarrow> u8" where
  "hi8 v = ucast (drop_bit 8 v)"

definition lo8 :: "u16 \<Rightarrow> u8" where
  "lo8 v = ucast v"

text \<open>
  A \<^verbatim>\<open>uint16_t\<close> object in host memory: \<open>b0\<close> is the byte at the lower address.
  A PDP-endian host stores a 16-bit value low byte first.
\<close>

definition u16_of_mem :: "byte_order \<Rightarrow> u8 \<Rightarrow> u8 \<Rightarrow> u16" where
  "u16_of_mem bo b0 b1 = (if bo = ORDER_BIG_ENDIAN then word_cat b0 b1 else word_cat b1 b0)"

definition mem_of_u16 :: "byte_order \<Rightarrow> u16 \<Rightarrow> u8 list" where
  "mem_of_u16 bo v = (if bo = ORDER_BIG_ENDIAN then [hi8 v, lo8 v] else [lo8 v, hi8 v])"

text \<open>
  Reading and writing a \<^verbatim>\<open>uint16_t\<close> member at byte offset \<open>off\<close> of an object
  held as its bytes. The objects of app.c are C objects of a fixed size, so the two
  bytes are always inside the object there.
\<close>

definition load16 :: "byte_order \<Rightarrow> u8 list \<Rightarrow> nat \<Rightarrow> u16" where
  "load16 bo mem off = u16_of_mem bo (mem ! off) (mem ! Suc off)"

definition store16 :: "byte_order \<Rightarrow> u8 list \<Rightarrow> nat \<Rightarrow> u16 \<Rightarrow> u8 list" where
  "store16 bo mem off v = mem[off := mem_of_u16 bo v ! 0, Suc off := mem_of_u16 bo v ! 1]"

text \<open>\<^verbatim>\<open>APP_SWAP_ENDIAN_16(obj->member)\<close> on a member of an object in memory.\<close>

definition swap_member :: "byte_order \<Rightarrow> u8 list \<Rightarrow> nat \<Rightarrow> u8 list" where
  "swap_member bo mem off = store16 bo mem off (APP_SWAP_ENDIAN_16 bo (load16 bo mem off))"

text \<open>The device's wire order for a 16-bit value: big endian, high byte first.\<close>

definition wire16 :: "u16 \<Rightarrow> u8 list" where
  "wire16 v = [hi8 v, lo8 v]"

definition of_wire16 :: "u8 \<Rightarrow> u8 \<Rightarrow> u16" where
  "of_wire16 b0 b1 = word_cat b0 b1"

section \<open>Declarations of app.h\<close>

text \<open>
  app.h is not among the visible sources. The sizes and member offsets that its type
  declarations fix are taken as a parameter: \<open>sizeof_T\<close> is \<^verbatim>\<open>sizeof(T)\<close> as it
  arrives in the \<^verbatim>\<open>uint16_t\<close> length parameters of \<^verbatim>\<open>AppSendAndReceive\<close>, and
  \<open>offsetof_T_pageNumber\<close> is the byte offset of the member \<^verbatim>\<open>pageNumber\<close>.
\<close>

record app_h =
  sizeof_AppDateTimeType :: u16
  sizeof_AppMatrixBitmapType :: u16
  sizeof_AppIntensityType :: u16
  sizeof_AppLastCalibrationType :: u16
  sizeof_AppRtcCalibrationValueType :: u16
  sizeof_AppStandbyType :: u16
  sizeof_AppFlashConfigPageType :: u16
  offsetof_AppFlashConfigPageType_pageNumber :: nat
  sizeof_AppFlashClockConfigType :: u16
  offsetof_AppFlashClockConfigType_pageNumber :: nat
  sizeof_AppointmentsConfigType :: u16

text \<open>
  Modelled from the spec: the declaration of \<^verbatim>\<open>AppVersionType\<close> in app.h is missing.
  The spec gives three 16-bit fields major, minor, revision in this order, six bytes in
  all; app.c names the three members.
\<close>

record AppVersionType =
  major :: u16
  minor :: u16
  revision :: u16

definition sizeof_AppVersionType :: u16 where
  "sizeof_AppVersionType = 6"

definition AppVersionType_of_mem :: "byte_order \<Rightarrow> u8 list \<Rightarrow> AppVersionType" where
  "AppVersionType_of_mem bo mem =
     \<lparr>major = load16 bo mem 0, minor = load16 bo mem 2, revision = load16 bo mem 4\<rparr>"

text \<open>
  Modelled from the spec: \<^verbatim>\<open>AppRtcCalibrationValueType\<close> is declared in app.h; the spec
  calls it a floating-point PPM offset and app.c compares it with the \<^verbatim>\<open>float\<close>
  constant \<^verbatim>\<open>189.0f\<close>. A C floating-point value is finite, an infinity or a NaN.
  The relational operators of C order the finite values as the reals, put the
  infinities at the two ends, and are false whenever an operand is a NaN.
\<close>

datatype c_float = Finite real | PlusInfinity | MinusInfinity | NaN

fun float_gt :: "c_float \<Rightarrow> c_float \<Rightarrow> bool" where
  "float_gt NaN _ = False"
| "float_gt _ NaN = False"
| "float_gt (Finite x) (Finite y) = (x > y)"
| "float_gt PlusInfinity PlusInfinity = False"
| "float_gt PlusInfinity _ = True"
| "float_gt _ PlusInfinity = False"
| "float_gt MinusInfinity _ = False"
| "float_gt _ MinusInfinity = True"

definition float_lt :: "c_float \<Rightarrow> c_float \<Rightarrow> bool" where
  "float_lt a b = float_gt b a"

fun float_neg :: "c_float \<Rightarrow> c_float" where
  "float_neg (Finite x) = Finite (- x)"
| "float_neg PlusInfinity = MinusInfinity"
| "float_neg MinusInfinity = PlusInfinity"
| "float_neg NaN = NaN"

text \<open>\<^verbatim>\<open>#define APP_PPM_LIMIT 189.0f\<close>, app.c line 47.\<close>

definition APP_PPM_LIMIT :: c_float where
  "APP_PPM_LIMIT = Finite 189"

section \<open>The link layer and fatal errors\<close>

text \<open>
  link.h and utils.h are not among the visible sources; the link layer is the external
  transport. One call of \<^verbatim>\<open>AppSendAndReceive\<close> hands the link layer the arguments
  of \<^verbatim>\<open>LinkSendCommandAndBuffer(command, sendBuf, sendBufLen)\<close> and the capacity
  \<^verbatim>\<open>recvBufLen\<close> of \<^verbatim>\<open>LinkReceiveCommandAndBuffer\<close>; a \<^verbatim>\<open>NULL\<close> buffer of length
  0 is the empty list. The link layer answers with the command it stored in
  \<^verbatim>\<open>recvCmd\<close>, the contents of the receive buffer after the call and the length it
  returned. The transport is a parameter: any function from requests to replies.
\<close>

record request =
  sentCmd :: u8
  sentBuf :: "u8 list"
  sentLen :: u16
  recvMax :: u16

record reply =
  recvCmd :: u8
  recvBuf :: "u8 list"
  recvLength :: u16

type_synonym link = "request \<Rightarrow> reply"

text \<open>
  \<^verbatim>\<open>ExitWithError\<close> ends the process with a message. The three messages of app.c, with
  the value each one prints.
\<close>

datatype error =
    InvalidAnswerCommand u8   \<comment> \<open>\<^verbatim>\<open>"Invalid answer command received: '%c'"\<close>\<close>
  | InvalidLength u16         \<comment> \<open>\<^verbatim>\<open>"Invalid length received: %u"\<close>\<close>
  | BadPageNumber u16         \<comment> \<open>\<^verbatim>\<open>"Bad page number received: %u"\<close>\<close>

text \<open>
  What one operation does: the request it handed to the link layer, and either the
  error it exited with or what it returned to its caller.
\<close>

type_synonym 'a outcome = "request \<times> (error + 'a)"

text \<open>\<^verbatim>\<open>AppSendAndReceive\<close>, app.c lines 52-71. On return the receive buffer is handed on.\<close>

definition AppSendAndReceive :: "link \<Rightarrow> u8 \<Rightarrow> u8 list \<Rightarrow> u16 \<Rightarrow> u16 \<Rightarrow> u8 list outcome" where
  "AppSendAndReceive link command sendBuf sendBufLen recvBufLen =
     (let req = \<lparr>sentCmd = command, sentBuf = sendBuf, sentLen = sendBufLen,
                 recvMax = recvBufLen\<rparr>;
          r = link req
      in (req,
          if recvCmd r \<noteq> command then Inl (InvalidAnswerCommand (recvCmd r))
          else if recvLength r \<noteq> recvBufLen then Inl (InvalidLength (recvLength r))
          else Inr (recvBuf r)))"

text \<open>
  The statements after a call of \<^verbatim>\<open>AppSendAndReceive\<close> run only when it returned; they
  get the receive buffer and may exit with an error of their own.
\<close>

definition on_return :: "'a outcome \<Rightarrow> ('a \<Rightarrow> error + 'b) \<Rightarrow> 'b outcome" where
  "on_return out k = (fst out, case snd out of Inl e \<Rightarrow> Inl e | Inr x \<Rightarrow> k x)"

text \<open>The command characters as bytes.\<close>

definition c_char :: "char \<Rightarrow> u8" where
  "c_char c = of_char c"

section \<open>The operations of app.c\<close>

text \<open>\<^verbatim>\<open>AppGetVersion\<close>, lines 92-98.\<close>

definition AppGetVersion :: "byte_order \<Rightarrow> link \<Rightarrow> AppVersionType outcome" where
  "AppGetVersion bo link =
     on_return (AppSendAndReceive link (c_char CHR ''v'') [] 0 sizeof_AppVersionType)
       (\<lambda>buf. let version = AppVersionType_of_mem bo buf;
                  version = version\<lparr>major := APP_SWAP_ENDIAN_16 bo (major version)\<rparr>;
                  version = version\<lparr>minor := APP_SWAP_ENDIAN_16 bo (minor version)\<rparr>;
                  version = version\<lparr>revision := APP_SWAP_ENDIAN_16 bo (revision version)\<rparr>
              in Inr version)"

text \<open>\<^verbatim>\<open>AppGetDateTime\<close>, lines 103-106, and \<^verbatim>\<open>AppSetDateTime\<close>, lines 111-114.\<close>

definition AppGetDateTime :: "app_h \<Rightarrow> link \<Rightarrow> u8 list outcome" where
  "AppGetDateTime h link =
     AppSendAndReceive link (c_char CHR ''t'') [] 0 (sizeof_AppDateTimeType h)"

definition AppSetDateTime :: "app_h \<Rightarrow> link \<Rightarrow> u8 list \<Rightarrow> unit outcome" where
  "AppSetDateTime h link dateTime =
     on_return (AppSendAndReceive link (c_char CHR ''T'') dateTime (sizeof_AppDateTimeType h) 0)
       (\<lambda>_. Inr ())"

text \<open>The four mode switches, lines 119-146.\<close>

definition AppSetNormalMode :: "link \<Rightarrow> unit outcome" where
  "AppSetNormalMode link =
     on_return (AppSendAndReceive link (c_char CHR ''A'') [] 0 0) (\<lambda>_. Inr ())"

definition AppSetPreviewMode :: "link \<Rightarrow> unit outcome" where
  "AppSetPreviewMode link =
     on_return (AppSendAndReceive link (c_char CHR ''a'') [] 0 0) (\<lambda>_. Inr ())"

definition AppFactoryReset :: "link \<Rightarrow> unit outcome" where
  "AppFactoryReset link =
     on_return (AppSendAndReceive link (c_char CHR ''X'') [] 0 0) (\<lambda>_. Inr ())"

definition AppActivateBootloader :: "link \<Rightarrow> unit outcome" where
  "AppActivateBootloader link =
     on_return (AppSendAndReceive link (c_char CHR ''!'') [] 0 0) (\<lambda>_. Inr ())"

text \<open>\<^verbatim>\<open>AppSetPreviewMatrix\<close>, lines 151-154.\<close>

definition AppSetPreviewMatrix :: "app_h \<Rightarrow> link \<Rightarrow> u8 list \<Rightarrow> unit outcome" where
  "AppSetPreviewMatrix h link matrix =
     on_return (AppSendAndReceive link (c_char CHR ''D'') matrix (sizeof_AppMatrixBitmapType h) 0)
       (\<lambda>_. Inr ())"

text \<open>\<^verbatim>\<open>AppGetIntensity\<close>, lines 159-164, and \<^verbatim>\<open>AppSetIntensity\<close>, lines 169-172.\<close>

definition AppGetIntensity :: "app_h \<Rightarrow> link \<Rightarrow> u8 list outcome" where
  "AppGetIntensity h link =
     AppSendAndReceive link (c_char CHR ''b'') [] 0 (sizeof_AppIntensityType h)"

definition AppSetIntensity :: "app_h \<Rightarrow> link \<Rightarrow> u8 list \<Rightarrow> unit outcome" where
  "AppSetIntensity h link intensity =
     on_return (AppSendAndReceive link (c_char CHR ''B'') intensity (sizeof_AppIntensityType h) 0)
       (\<lambda>_. Inr ())"

text \<open>\<^verbatim>\<open>AppGetLastCalibration\<close>, lines 177-180.\<close>

definition AppGetLastCalibration :: "app_h \<Rightarrow> link \<Rightarrow> u8 list outcome" where
  "AppGetLastCalibration h link =
     AppSendAndReceive link (c_char CHR ''c'') [] 0 (sizeof_AppLastCalibrationType h)"

text \<open>
  \<^verbatim>\<open>AppSetRtcCalibration\<close>, lines 185-196. \<open>limit_ppm\<close> is the value of
  \<^verbatim>\<open>ppmDifference\<close> after the two tests of lines 188-193; \<open>float_mem\<close> gives the
  bytes of a floating-point object in host memory, which is what \<^verbatim>\<open>&ppmDifference\<close>
  hands to the link layer.
\<close>

definition limit_ppm :: "c_float \<Rightarrow> c_float" where
  "limit_ppm ppmDifference =
     (if float_gt ppmDifference APP_PPM_LIMIT then APP_PPM_LIMIT
      else if float_lt ppmDifference (float_neg APP_PPM_LIMIT) then float_neg APP_PPM_LIMIT
      else ppmDifference)"

definition AppSetRtcCalibration ::
  "app_h \<Rightarrow> (c_float \<Rightarrow> u8 list) \<Rightarrow> link \<Rightarrow> c_float \<Rightarrow> unit outcome" where
  "AppSetRtcCalibration h float_mem link ppmDifference =
     on_return (AppSendAndReceive link (c_char CHR ''C'') (float_mem (limit_ppm ppmDifference))
                  (sizeof_AppRtcCalibrationValueType h) 0)
       (\<lambda>_. Inr ())"

text \<open>\<^verbatim>\<open>AppGetStandby\<close>, lines 201-204, and \<^verbatim>\<open>AppSetStandby\<close>, lines 209-212.\<close>

definition AppGetStandby :: "app_h \<Rightarrow> link \<Rightarrow> u8 list outcome" where
  "AppGetStandby h link =
     AppSendAndReceive link (c_char CHR ''s'') [] 0 (sizeof_AppStandbyType h)"

definition AppSetStandby :: "app_h \<Rightarrow> link \<Rightarrow> u8 list \<Rightarrow> unit outcome" where
  "AppSetStandby h link standby =
     on_return (AppSendAndReceive link (c_char CHR ''S'') standby (sizeof_AppStandbyType h) 0)
       (\<lambda>_. Inr ())"

text \<open>
  \<^verbatim>\<open>AppGetFlashConfigPage\<close>, lines 217-227. The parameter is swapped, sent as its two
  bytes in host memory and swapped back; the member \<^verbatim>\<open>config->pageNumber\<close> of the
  received object is swapped in place and compared. On return the caller has the
  received object.
\<close>

definition AppGetFlashConfigPage :: "app_h \<Rightarrow> byte_order \<Rightarrow> link \<Rightarrow> u16 \<Rightarrow> u8 list outcome" where
  "AppGetFlashConfigPage h bo link pageNumber =
     (let off = offsetof_AppFlashConfigPageType_pageNumber h;
          pageNumber1 = APP_SWAP_ENDIAN_16 bo pageNumber
      in on_return (AppSendAndReceive link (c_char CHR ''f'') (mem_of_u16 bo pageNumber1) 2
                      (sizeof_AppFlashConfigPageType h))
           (\<lambda>buf. let pageNumber2 = APP_SWAP_ENDIAN_16 bo pageNumber1;
                      config = swap_member bo buf off
                  in if load16 bo config off \<noteq> pageNumber2
                     then Inl (BadPageNumber (load16 bo config off))
                     else Inr config))"

text \<open>\<^verbatim>\<open>AppEraseFlashConfigSector\<close>, lines 232-244.\<close>

definition AppEraseFlashConfigSector :: "byte_order \<Rightarrow> link \<Rightarrow> u16 \<Rightarrow> unit outcome" where
  "AppEraseFlashConfigSector bo link startPage =
     (let startPage1 = APP_SWAP_ENDIAN_16 bo startPage
      in on_return (AppSendAndReceive link (c_char CHR ''E'') (mem_of_u16 bo startPage1) 2 2)
           (\<lambda>buf. let pageErased = APP_SWAP_ENDIAN_16 bo (load16 bo buf 0);
                      startPage2 = APP_SWAP_ENDIAN_16 bo startPage1
                  in if pageErased \<noteq> startPage2
                     then Inl (BadPageNumber pageErased)
                     else Inr ()))"

text \<open>
  \<^verbatim>\<open>AppSetFlashClockConfig\<close>, lines 249-261. The caller's object \<^verbatim>\<open>*config\<close> is
  changed in place before the call and again after it; on return the caller has the
  object as the second swap left it.
\<close>

definition AppSetFlashClockConfig :: "app_h \<Rightarrow> byte_order \<Rightarrow> link \<Rightarrow> u8 list \<Rightarrow> u8 list outcome" where
  "AppSetFlashClockConfig h bo link config =
     (let off = offsetof_AppFlashClockConfigType_pageNumber h;
          config1 = swap_member bo config off
      in on_return (AppSendAndReceive link (c_char CHR ''F'') config1
                      (sizeof_AppFlashClockConfigType h) 2)
           (\<lambda>buf. let config2 = swap_member bo config1 off;
                      pageNumber = APP_SWAP_ENDIAN_16 bo (load16 bo buf 0)
                  in if pageNumber \<noteq> load16 bo config2 off
                     then Inl (BadPageNumber pageNumber)
                     else Inr config2))"

text \<open>\<^verbatim>\<open>AppGetAppointments\<close>, lines 266-269, and \<^verbatim>\<open>AppSetAppointments\<close>, lines 274-277.\<close>

definition AppGetAppointments :: "app_h \<Rightarrow> link \<Rightarrow> u8 list outcome" where
  "AppGetAppointments h link =
     AppSendAndReceive link (c_char CHR ''r'') [] 0 (sizeof_AppointmentsConfigType h)"

definition AppSetAppointments :: "app_h \<Rightarrow> link \<Rightarrow> u8 list \<Rightarrow> unit outcome" where
  "AppSetAppointments h link appointments =
     on_return (AppSendAndReceive link (c_char CHR ''R'') appointments
                  (sizeof_AppointmentsConfigType h) 0)
       (\<lambda>_. Inr ())"

section \<open>Properties of an operation's outcome\<close>

text \<open>The reply the link layer gave to the request of an operation.\<close>

definition answer :: "link \<Rightarrow> 'a outcome \<Rightarrow> reply" where
  "answer link out = link (fst out)"

text \<open>
  The operation sent the command \<open>tag\<close>, and a reply with any other command makes it
  exit with the message that names the command received.
\<close>

definition exits_on_wrong_tag :: "link \<Rightarrow> u8 \<Rightarrow> 'a outcome \<Rightarrow> bool" where
  "exits_on_wrong_tag link tag out =
     (sentCmd (fst out) = tag \<and>
      (recvCmd (answer link out) \<noteq> tag \<longrightarrow>
         snd out = Inl (InvalidAnswerCommand (recvCmd (answer link out)))))"

text \<open>
  The operation sent \<open>tag\<close> and expects \<open>len\<close> bytes; a reply that is wrong in both
  makes it exit with the message about the command, not the one about the length.
\<close>

definition tag_checked_before_length :: "link \<Rightarrow> u8 \<Rightarrow> u16 \<Rightarrow> 'a outcome \<Rightarrow> bool" where
  "tag_checked_before_length link tag len out =
     (sentCmd (fst out) = tag \<and> recvMax (fst out) = len \<and>
      (recvCmd (answer link out) \<noteq> tag \<and> recvLength (answer link out) \<noteq> len \<longrightarrow>
         snd out = Inl (InvalidAnswerCommand (recvCmd (answer link out))) \<and>
         snd out \<noteq> Inl (InvalidLength (recvLength (answer link out)))))"

text \<open>
  The operation sent \<open>tag\<close> and expects \<open>len\<close> bytes; a reply with that command and
  any other length makes it exit with the message that names the length received.
\<close>

definition exits_on_wrong_length :: "link \<Rightarrow> u8 \<Rightarrow> u16 \<Rightarrow> 'a outcome \<Rightarrow> bool" where
  "exits_on_wrong_length link tag len out =
     (sentCmd (fst out) = tag \<and> recvMax (fst out) = len \<and>
      (recvCmd (answer link out) = tag \<and> recvLength (answer link out) \<noteq> len \<longrightarrow>
         snd out = Inl (InvalidLength (recvLength (answer link out)))))"

text \<open>
  An operation without a response payload: it sent \<open>tag\<close>, expects no bytes, and
  returns exactly when the reply has that command and length 0.
\<close>

definition validates_empty_reply :: "link \<Rightarrow> u8 \<Rightarrow> unit outcome \<Rightarrow> bool" where
  "validates_empty_reply link tag out =
     (sentCmd (fst out) = tag \<and> recvMax (fst out) = 0 \<and>
      snd out =
        (if recvCmd (answer link out) \<noteq> tag
         then Inl (InvalidAnswerCommand (recvCmd (answer link out)))
         else if recvLength (answer link out) \<noteq> 0
         then Inl (InvalidLength (recvLength (answer link out)))
         else Inr ()))"

text \<open>The reply has the command that was sent and the length that was expected.\<close>

definition valid_reply :: "link \<Rightarrow> 'a outcome \<Rightarrow> bool" where
  "valid_reply link out =
     (recvCmd (answer link out) = sentCmd (fst out) \<and>
      recvLength (answer link out) = recvMax (fst out))"

text \<open>On a reply with the command sent and the length expected, the operation returns \<open>x\<close>.\<close>

definition returns_on_valid_reply :: "link \<Rightarrow> 'a outcome \<Rightarrow> 'a \<Rightarrow> bool" where
  "returns_on_valid_reply link out x = (valid_reply link out \<longrightarrow> snd out = Inr x)"

text \<open>The page number that a received buffer carries in wire order at byte offset \<open>off\<close>.\<close>

definition echoed_page :: "u8 list \<Rightarrow> nat \<Rightarrow> u16" where
  "echoed_page buf off = of_wire16 (buf ! off) (buf ! Suc off)"

text \<open>A PPM value inside the closed range the device accepts.\<close>

fun in_ppm_range :: "c_float \<Rightarrow> bool" where
  "in_ppm_range (Finite x) = (- 189 \<le> x \<and> x \<le> 189)"
| "in_ppm_range _ = False"

section \<open>Simulated devices\<close>

text \<open>
  Concrete values for the constants of app.h, to run the operations on. They are
  examples, not the values of the header: the page number is the first member of the
  flash page and sits at offset 2 of the clock configuration.
\<close>

definition example_app_h :: app_h where
  "example_app_h =
     \<lparr>sizeof_AppDateTimeType = 7, sizeof_AppMatrixBitmapType = 8,
      sizeof_AppIntensityType = 1, sizeof_AppLastCalibrationType = 11,
      sizeof_AppRtcCalibrationValueType = 4, sizeof_AppStandbyType = 5,
      sizeof_AppFlashConfigPageType = 6, offsetof_AppFlashConfigPageType_pageNumber = 0,
      sizeof_AppFlashClockConfigType = 5, offsetof_AppFlashClockConfigType_pageNumber = 2,
      sizeof_AppointmentsConfigType = 9\<rparr>"

text \<open>
  A device that answers every request with the command it got and as many bytes as
  the caller expects. It reports version 1.2.3 in wire order, answers a flash page
  request with the page number it got followed by four data bytes, and echoes the page
  number of an erase request and of a clock configuration laid out as in
  \<open>example_app_h\<close>.
\<close>

definition sim_device :: link where
  "sim_device req =
     \<lparr>recvCmd = sentCmd req,
      recvBuf =
        (if sentCmd req = c_char CHR ''v'' then [0, 1, 0, 2, 0, 3]
         else if sentCmd req = c_char CHR ''f'' then sentBuf req @ [0x11, 0x22, 0x33, 0x44]
         else if sentCmd req = c_char CHR ''E'' then sentBuf req
         else if sentCmd req = c_char CHR ''F'' then take 2 (drop 2 (sentBuf req))
         else replicate (unat (recvMax req)) 0x5A),
      recvLength = recvMax req\<rparr>"

text \<open>A link that gives one reply to every request: command \<open>c\<close> with the bytes \<open>buf\<close>.\<close>

definition replies_with :: "u8 \<Rightarrow> u8 list \<Rightarrow> link" where
  "replies_with c buf req = \<lparr>recvCmd = c, recvBuf = buf, recvLength = of_nat (length buf)\<rparr>"

text \<open>The same device behind a link that changes the command, the length, or the page.\<close>

definition wrong_tag :: "link \<Rightarrow> link" where
  "wrong_tag dev req = (dev req)\<lparr>recvCmd := recvCmd (dev req) + 1\<rparr>"

definition wrong_length :: "link \<Rightarrow> link" where
  "wrong_length dev req = (dev req)\<lparr>recvLength := recvLength (dev req) + 1\<rparr>"

definition echo_page :: "u16 \<Rightarrow> link \<Rightarrow> link" where
  "echo_page p dev req = (dev req)\<lparr>recvBuf := wire16 p @ drop 2 (recvBuf (dev req))\<rparr>"

section \<open>Bytes, words and members\<close>

lemma swap_word_cat:
  "APP_SWAP_ENDIAN_16 bo (word_cat (a :: u8) (b :: u8)) =
     (if bo \<noteq> ORDER_BIG_ENDIAN then word_cat b a else word_cat a b)"
  unfolding APP_SWAP_ENDIAN_16_def
  by (cases bo; simp) (rule bit_word_eqI; auto simp add: bit_simps)+

lemma swap_swap: "APP_SWAP_ENDIAN_16 bo (APP_SWAP_ENDIAN_16 bo v) = v"
  unfolding APP_SWAP_ENDIAN_16_def
  by (cases bo; simp) (rule bit_word_eqI; auto simp add: bit_simps dest: bit_imp_le_length)+

lemma lo8_word_cat: "lo8 (word_cat (a :: u8) (b :: u8)) = b"
  unfolding lo8_def by (rule bit_word_eqI) (auto simp add: bit_simps)

lemma hi8_word_cat: "hi8 (word_cat (a :: u8) (b :: u8)) = a"
  unfolding hi8_def by (rule bit_word_eqI) (auto simp add: bit_simps)

lemma word_cat_hi8_lo8: "word_cat (hi8 v) (lo8 v) = v"
  unfolding hi8_def lo8_def by (rule bit_word_eqI) (auto simp add: bit_simps)

lemma swap_u16_of_mem: "APP_SWAP_ENDIAN_16 bo (u16_of_mem bo b0 b1) = of_wire16 b0 b1"
  by (simp add: u16_of_mem_def of_wire16_def swap_word_cat)

lemma swap_as_bytes: "bo \<noteq> ORDER_BIG_ENDIAN \<Longrightarrow> APP_SWAP_ENDIAN_16 bo v = word_cat (lo8 v) (hi8 v)"
proof -
  assume "bo \<noteq> ORDER_BIG_ENDIAN"
  then have "APP_SWAP_ENDIAN_16 bo (word_cat (hi8 v) (lo8 v)) = word_cat (lo8 v) (hi8 v)"
    by (simp add: swap_word_cat)
  then show ?thesis by (simp add: word_cat_hi8_lo8)
qed

lemma mem_of_swapped: "mem_of_u16 bo (APP_SWAP_ENDIAN_16 bo v) = wire16 v"
proof (cases "bo = ORDER_BIG_ENDIAN")
  case True
  then show ?thesis by (simp add: mem_of_u16_def wire16_def APP_SWAP_ENDIAN_16_def)
next
  case False
  then show ?thesis
    by (simp add: mem_of_u16_def wire16_def swap_as_bytes lo8_word_cat hi8_word_cat)
qed

lemma u16_of_mem_of_u16: "u16_of_mem bo (mem_of_u16 bo v ! 0) (mem_of_u16 bo v ! Suc 0) = v"
  by (simp add: u16_of_mem_def mem_of_u16_def word_cat_hi8_lo8)

lemma mem_of_u16_of_mem: "mem_of_u16 bo (u16_of_mem bo b0 b1) = [b0, b1]"
  by (simp add: u16_of_mem_def mem_of_u16_def lo8_word_cat hi8_word_cat)

lemma length_store16: "length (store16 bo mem off v) = length mem"
  by (simp add: store16_def)

lemma load16_store16: "Suc off < length mem \<Longrightarrow> load16 bo (store16 bo mem off v) off = v"
  by (simp add: load16_def store16_def u16_of_mem_of_u16)

lemma store16_other: "i \<noteq> off \<Longrightarrow> i \<noteq> Suc off \<Longrightarrow> store16 bo mem off v ! i = mem ! i"
  by (simp add: store16_def)

lemma store16_store16: "store16 bo (store16 bo mem off v) off w = store16 bo mem off w"
  by (simp add: store16_def list_update_swap)

lemma store16_load16: "store16 bo mem off (load16 bo mem off) = mem"
  by (simp add: store16_def load16_def mem_of_u16_of_mem)

lemma length_swap_member: "length (swap_member bo mem off) = length mem"
  by (simp add: swap_member_def length_store16)

lemma swap_member_other: "i \<noteq> off \<Longrightarrow> i \<noteq> Suc off \<Longrightarrow> swap_member bo mem off ! i = mem ! i"
  by (simp add: swap_member_def store16_other)

lemma load16_swap_member:
  "Suc off < length mem \<Longrightarrow> load16 bo (swap_member bo mem off) off = of_wire16 (mem ! off) (mem ! Suc off)"
  by (simp add: swap_member_def load16_store16) (simp add: load16_def swap_u16_of_mem)

lemma swap_member_swap_member:
  "Suc off < length mem \<Longrightarrow> swap_member bo (swap_member bo mem off) off = mem"
  by (simp add: swap_member_def load16_store16 store16_store16 swap_swap store16_load16)

lemma swap_member_wire:
  "swap_member bo mem off = mem[off := hi8 (load16 bo mem off), Suc off := lo8 (load16 bo mem off)]"
  using mem_of_swapped [of bo "load16 bo mem off"]
  by (simp add: swap_member_def store16_def wire16_def)

lemma fst_AppSendAndReceive:
  "fst (AppSendAndReceive link command sendBuf sendBufLen recvBufLen) =
     \<lparr>sentCmd = command, sentBuf = sendBuf, sentLen = sendBufLen, recvMax = recvBufLen\<rparr>"
  by (simp add: AppSendAndReceive_def Let_def)

lemma snd_AppSendAndReceive:
  "snd (AppSendAndReceive link command sendBuf sendBufLen recvBufLen) =
     (let r = link \<lparr>sentCmd = command, sentBuf = sendBuf, sentLen = sendBufLen, recvMax = recvBufLen\<rparr>
      in if recvCmd r \<noteq> command then Inl (InvalidAnswerCommand (recvCmd r))
         else if recvLength r \<noteq> recvBufLen then Inl (InvalidLength (recvLength r))
         else Inr (recvBuf r))"
  by (simp add: AppSendAndReceive_def Let_def)

lemma fst_on_return: "fst (on_return out k) = fst out"
  by (simp add: on_return_def)

lemma snd_on_return: "snd (on_return out k) = (case snd out of Inl e \<Rightarrow> Inl e | Inr x \<Rightarrow> k x)"
  by (simp add: on_return_def)


lemmas outcome_simps = fst_AppSendAndReceive snd_AppSendAndReceive fst_on_return snd_on_return answer_def

lemmas operation_defs =
  AppGetVersion_def AppGetDateTime_def AppSetDateTime_def AppSetNormalMode_def
  AppSetPreviewMode_def AppFactoryReset_def AppActivateBootloader_def AppSetPreviewMatrix_def
  AppGetIntensity_def AppSetIntensity_def AppGetLastCalibration_def AppSetRtcCalibration_def
  AppGetStandby_def AppSetStandby_def AppGetFlashConfigPage_def AppEraseFlashConfigSector_def
  AppSetFlashClockConfig_def AppGetAppointments_def AppSetAppointments_def

lemma exits_on_wrong_tag_direct:
  "exits_on_wrong_tag link command (AppSendAndReceive link command sendBuf sendBufLen recvBufLen)"
  by (simp add: exits_on_wrong_tag_def outcome_simps Let_def)

lemma exits_on_wrong_tag_on_return:
  "exits_on_wrong_tag link command
     (on_return (AppSendAndReceive link command sendBuf sendBufLen recvBufLen) k)"
  by (simp add: exits_on_wrong_tag_def outcome_simps Let_def)

lemma tag_checked_before_length_direct:
  "tag_checked_before_length link command recvBufLen
     (AppSendAndReceive link command sendBuf sendBufLen recvBufLen)"
  by (simp add: tag_checked_before_length_def outcome_simps Let_def)

lemma tag_checked_before_length_on_return:
  "tag_checked_before_length link command recvBufLen
     (on_return (AppSendAndReceive link command sendBuf sendBufLen recvBufLen) k)"
  by (simp add: tag_checked_before_length_def outcome_simps Let_def)

lemma exits_on_wrong_length_direct:
  "exits_on_wrong_length link command recvBufLen
     (AppSendAndReceive link command sendBuf sendBufLen recvBufLen)"
  by (simp add: exits_on_wrong_length_def outcome_simps Let_def)

lemma exits_on_wrong_length_on_return:
  "exits_on_wrong_length link command recvBufLen
     (on_return (AppSendAndReceive link command sendBuf sendBufLen recvBufLen) k)"
  by (simp add: exits_on_wrong_length_def outcome_simps Let_def)

lemma validates_empty_reply_on_return:
  "validates_empty_reply link command
     (on_return (AppSendAndReceive link command sendBuf sendBufLen 0) (\<lambda>_. Inr ()))"
  by (simp add: validates_empty_reply_def outcome_simps Let_def)

lemma returns_direct:
  "returns_on_valid_reply link (AppSendAndReceive link command sendBuf sendBufLen recvBufLen)
     (recvBuf (answer link (AppSendAndReceive link command sendBuf sendBufLen recvBufLen)))"
  by (simp add: returns_on_valid_reply_def valid_reply_def outcome_simps Let_def)

lemma returns_unit:
  "returns_on_valid_reply link
     (on_return (AppSendAndReceive link command sendBuf sendBufLen recvBufLen) (\<lambda>_. Inr ())) ()"
  by (simp add: returns_on_valid_reply_def valid_reply_def outcome_simps Let_def)

lemma load16_wire16_append:
  "APP_SWAP_ENDIAN_16 bo (load16 bo (wire16 v1 @ wire16 v2 @ wire16 v3) 0) = v1"
  "APP_SWAP_ENDIAN_16 bo (load16 bo (wire16 v1 @ wire16 v2 @ wire16 v3) 2) = v2"
  "APP_SWAP_ENDIAN_16 bo (load16 bo (wire16 v1 @ wire16 v2 @ wire16 v3) 4) = v3"
  by (simp_all add: load16_def wire16_def swap_u16_of_mem of_wire16_def word_cat_hi8_lo8
        numeral_2_eq_2 numeral_Bit0)

lemma version_decoded:
  "recvBuf (answer link (AppGetVersion bo link)) = wire16 v1 @ wire16 v2 @ wire16 v3 \<longrightarrow>
     returns_on_valid_reply link (AppGetVersion bo link) \<lparr>major = v1, minor = v2, revision = v3\<rparr>"
  by (simp add: returns_on_valid_reply_def valid_reply_def AppGetVersion_def outcome_simps Let_def
        AppVersionType_of_mem_def load16_wire16_append)

text \<open>
  What the three flash operations do with a reply that passed both checks of
  \<^verbatim>\<open>AppSendAndReceive\<close>.
\<close>

lemma snd_AppGetFlashConfigPage:
  "valid_reply link (AppGetFlashConfigPage h bo link pageNumber) \<Longrightarrow>
   Suc (offsetof_AppFlashConfigPageType_pageNumber h)
     < length (recvBuf (answer link (AppGetFlashConfigPage h bo link pageNumber))) \<Longrightarrow>
   snd (AppGetFlashConfigPage h bo link pageNumber) =
     (let buf = recvBuf (answer link (AppGetFlashConfigPage h bo link pageNumber));
          off = offsetof_AppFlashConfigPageType_pageNumber h
      in if echoed_page buf off \<noteq> pageNumber then Inl (BadPageNumber (echoed_page buf off))
         else Inr (store16 bo buf off pageNumber))"
  by (auto simp add: valid_reply_def AppGetFlashConfigPage_def outcome_simps Let_def
        load16_swap_member swap_swap echoed_page_def)
     (simp add: swap_member_def load16_def swap_u16_of_mem)

lemma snd_AppEraseFlashConfigSector:
  "valid_reply link (AppEraseFlashConfigSector bo link startPage) \<Longrightarrow>
   snd (AppEraseFlashConfigSector bo link startPage) =
     (let buf = recvBuf (answer link (AppEraseFlashConfigSector bo link startPage))
      in if echoed_page buf 0 \<noteq> startPage then Inl (BadPageNumber (echoed_page buf 0))
         else Inr ())"
  by (simp add: valid_reply_def AppEraseFlashConfigSector_def outcome_simps Let_def
        swap_swap echoed_page_def load16_def swap_u16_of_mem)

lemma snd_AppSetFlashClockConfig:
  "valid_reply link (AppSetFlashClockConfig h bo link config) \<Longrightarrow>
   Suc (offsetof_AppFlashClockConfigType_pageNumber h) < length config \<Longrightarrow>
   snd (AppSetFlashClockConfig h bo link config) =
     (let buf = recvBuf (answer link (AppSetFlashClockConfig h bo link config));
          off = offsetof_AppFlashClockConfigType_pageNumber h
      in if echoed_page buf 0 \<noteq> load16 bo config off then Inl (BadPageNumber (echoed_page buf 0))
         else Inr config)"
  by (simp add: valid_reply_def AppSetFlashClockConfig_def outcome_simps Let_def
        swap_member_swap_member echoed_page_def load16_def swap_u16_of_mem)

lemma flash_page_returned:
  "Suc (offsetof_AppFlashConfigPageType_pageNumber h)
     < length (recvBuf (answer link (AppGetFlashConfigPage h bo link pageNumber))) \<and>
   echoed_page (recvBuf (answer link (AppGetFlashConfigPage h bo link pageNumber)))
     (offsetof_AppFlashConfigPageType_pageNumber h) = pageNumber \<longrightarrow>
     returns_on_valid_reply link (AppGetFlashConfigPage h bo link pageNumber)
       (store16 bo (recvBuf (answer link (AppGetFlashConfigPage h bo link pageNumber)))
          (offsetof_AppFlashConfigPageType_pageNumber h) pageNumber)"
  by (simp add: returns_on_valid_reply_def snd_AppGetFlashConfigPage Let_def)

lemma erase_returned:
  "echoed_page (recvBuf (answer link (AppEraseFlashConfigSector bo link startPage))) 0 = startPage \<longrightarrow>
     returns_on_valid_reply link (AppEraseFlashConfigSector bo link startPage) ()"
  by (simp add: returns_on_valid_reply_def snd_AppEraseFlashConfigSector Let_def)

lemma clock_config_returned:
  "Suc (offsetof_AppFlashClockConfigType_pageNumber h) < length config \<and>
   echoed_page (recvBuf (answer link (AppSetFlashClockConfig h bo link config))) 0 =
     load16 bo config (offsetof_AppFlashClockConfigType_pageNumber h) \<longrightarrow>
     returns_on_valid_reply link (AppSetFlashClockConfig h bo link config) config"
  by (simp add: returns_on_valid_reply_def snd_AppSetFlashClockConfig Let_def)

section \<open>C4: the endianness transform is self-inverse\<close>

text \<open>
  C4. The endianness transform is its own inverse on every 16-bit value, on a host of
  any byte order: the shift-and-or of the macro on a host that is not big endian, the
  identity on a big-endian host.
\<close>

theorem swap_endian_16_self_inverse:
  "APP_SWAP_ENDIAN_16 bo (APP_SWAP_ENDIAN_16 bo v) = v"
  by (rule swap_swap)

section \<open>C2: a reply with another command\<close>

text \<open>
  C2. Every operation of the catalog sends its own command character, and a reply that
  carries any other command makes it exit with the invalid-answer-command error naming
  the command received. Nothing after the exchange runs: no byte swap, no comparison
  of page numbers, no value for the caller.
\<close>

theorem tag_mismatch_is_fatal:
  "exits_on_wrong_tag link (c_char CHR ''v'') (AppGetVersion bo link) \<and>
   exits_on_wrong_tag link (c_char CHR ''t'') (AppGetDateTime h link) \<and>
   exits_on_wrong_tag link (c_char CHR ''T'') (AppSetDateTime h link dateTime) \<and>
   exits_on_wrong_tag link (c_char CHR ''A'') (AppSetNormalMode link) \<and>
   exits_on_wrong_tag link (c_char CHR ''a'') (AppSetPreviewMode link) \<and>
   exits_on_wrong_tag link (c_char CHR ''X'') (AppFactoryReset link) \<and>
   exits_on_wrong_tag link (c_char CHR ''!'') (AppActivateBootloader link) \<and>
   exits_on_wrong_tag link (c_char CHR ''D'') (AppSetPreviewMatrix h link matrix) \<and>
   exits_on_wrong_tag link (c_char CHR ''b'') (AppGetIntensity h link) \<and>
   exits_on_wrong_tag link (c_char CHR ''B'') (AppSetIntensity h link intensity) \<and>
   exits_on_wrong_tag link (c_char CHR ''c'') (AppGetLastCalibration h link) \<and>
   exits_on_wrong_tag link (c_char CHR ''C'') (AppSetRtcCalibration h float_mem link ppmDifference) \<and>
   exits_on_wrong_tag link (c_char CHR ''s'') (AppGetStandby h link) \<and>
   exits_on_wrong_tag link (c_char CHR ''S'') (AppSetStandby h link standby) \<and>
   exits_on_wrong_tag link (c_char CHR ''f'') (AppGetFlashConfigPage h bo link pageNumber) \<and>
   exits_on_wrong_tag link (c_char CHR ''E'') (AppEraseFlashConfigSector bo link startPage) \<and>
   exits_on_wrong_tag link (c_char CHR ''F'') (AppSetFlashClockConfig h bo link config) \<and>
   exits_on_wrong_tag link (c_char CHR ''r'') (AppGetAppointments h link) \<and>
   exits_on_wrong_tag link (c_char CHR ''R'') (AppSetAppointments h link appointments)"
  unfolding operation_defs Let_def
  by (intro conjI exits_on_wrong_tag_direct exits_on_wrong_tag_on_return)

text \<open>
  The theorem on a link that turns every command of the simulated device into the
  next character: each operation sees a command it did not send and exits naming it.
\<close>

theorem tag_mismatch_is_fatal_witness:
  "recvCmd (answer (wrong_tag sim_device) (AppGetVersion ORDER_LITTLE_ENDIAN (wrong_tag sim_device))) \<noteq> c_char CHR ''v'' \<and>
   snd (AppGetVersion ORDER_LITTLE_ENDIAN (wrong_tag sim_device)) = Inl (InvalidAnswerCommand (c_char CHR ''v'' + 1)) \<and>
   recvCmd (answer (wrong_tag sim_device) (AppGetDateTime example_app_h (wrong_tag sim_device))) \<noteq> c_char CHR ''t'' \<and>
   snd (AppGetDateTime example_app_h (wrong_tag sim_device)) = Inl (InvalidAnswerCommand (c_char CHR ''t'' + 1)) \<and>
   recvCmd (answer (wrong_tag sim_device) (AppSetDateTime example_app_h (wrong_tag sim_device) [1, 2, 3, 4, 5, 6, 7])) \<noteq> c_char CHR ''T'' \<and>
   snd (AppSetDateTime example_app_h (wrong_tag sim_device) [1, 2, 3, 4, 5, 6, 7]) = Inl (InvalidAnswerCommand (c_char CHR ''T'' + 1)) \<and>
   recvCmd (answer (wrong_tag sim_device) (AppSetNormalMode (wrong_tag sim_device))) \<noteq> c_char CHR ''A'' \<and>
   snd (AppSetNormalMode (wrong_tag sim_device)) = Inl (InvalidAnswerCommand (c_char CHR ''A'' + 1)) \<and>
   recvCmd (answer (wrong_tag sim_device) (AppSetPreviewMode (wrong_tag sim_device))) \<noteq> c_char CHR ''a'' \<and>
   snd (AppSetPreviewMode (wrong_tag sim_device)) = Inl (InvalidAnswerCommand (c_char CHR ''a'' + 1)) \<and>
   recvCmd (answer (wrong_tag sim_device) (AppFactoryReset (wrong_tag sim_device))) \<noteq> c_char CHR ''X'' \<and>
   snd (AppFactoryReset (wrong_tag sim_device)) = Inl (InvalidAnswerCommand (c_char CHR ''X'' + 1)) \<and>
   recvCmd (answer (wrong_tag sim_device) (AppActivateBootloader (wrong_tag sim_device))) \<noteq> c_char CHR ''!'' \<and>
   snd (AppActivateBootloader (wrong_tag sim_device)) = Inl (InvalidAnswerCommand (c_char CHR ''!'' + 1)) \<and>
   recvCmd (answer (wrong_tag sim_device) (AppSetPreviewMatrix example_app_h (wrong_tag sim_device) [1, 2, 3, 4, 5, 6, 7, 8])) \<noteq> c_char CHR ''D'' \<and>
   snd (AppSetPreviewMatrix example_app_h (wrong_tag sim_device) [1, 2, 3, 4, 5, 6, 7, 8]) = Inl (InvalidAnswerCommand (c_char CHR ''D'' + 1)) \<and>
   recvCmd (answer (wrong_tag sim_device) (AppGetIntensity example_app_h (wrong_tag sim_device))) \<noteq> c_char CHR ''b'' \<and>
   snd (AppGetIntensity example_app_h (wrong_tag sim_device)) = Inl (InvalidAnswerCommand (c_char CHR ''b'' + 1)) \<and>
   recvCmd (answer (wrong_tag sim_device) (AppSetIntensity example_app_h (wrong_tag sim_device) [9])) \<noteq> c_char CHR ''B'' \<and>
   snd (AppSetIntensity example_app_h (wrong_tag sim_device) [9]) = Inl (InvalidAnswerCommand (c_char CHR ''B'' + 1)) \<and>
   recvCmd (answer (wrong_tag sim_device) (AppGetLastCalibration example_app_h (wrong_tag sim_device))) \<noteq> c_char CHR ''c'' \<and>
   snd (AppGetLastCalibration example_app_h (wrong_tag sim_device)) = Inl (InvalidAnswerCommand (c_char CHR ''c'' + 1)) \<and>
   recvCmd (answer (wrong_tag sim_device) (AppSetRtcCalibration example_app_h (\<lambda>_. [0, 0, 0, 0]) (wrong_tag sim_device) (Finite 10))) \<noteq> c_char CHR ''C'' \<and>
   snd (AppSetRtcCalibration example_app_h (\<lambda>_. [0, 0, 0, 0]) (wrong_tag sim_device) (Finite 10)) = Inl (InvalidAnswerCommand (c_char CHR ''C'' + 1)) \<and>
   recvCmd (answer (wrong_tag sim_device) (AppGetStandby example_app_h (wrong_tag sim_device))) \<noteq> c_char CHR ''s'' \<and>
   snd (AppGetStandby example_app_h (wrong_tag sim_device)) = Inl (InvalidAnswerCommand (c_char CHR ''s'' + 1)) \<and>
   recvCmd (answer (wrong_tag sim_device) (AppSetStandby example_app_h (wrong_tag sim_device) [1, 2, 3, 4, 5])) \<noteq> c_char CHR ''S'' \<and>
   snd (AppSetStandby example_app_h (wrong_tag sim_device) [1, 2, 3, 4, 5]) = Inl (InvalidAnswerCommand (c_char CHR ''S'' + 1)) \<and>
   recvCmd (answer (wrong_tag sim_device) (AppGetFlashConfigPage example_app_h ORDER_LITTLE_ENDIAN (wrong_tag sim_device) 5)) \<noteq> c_char CHR ''f'' \<and>
   snd (AppGetFlashConfigPage example_app_h ORDER_LITTLE_ENDIAN (wrong_tag sim_device) 5) = Inl (InvalidAnswerCommand (c_char CHR ''f'' + 1)) \<and>
   recvCmd (answer (wrong_tag sim_device) (AppEraseFlashConfigSector ORDER_LITTLE_ENDIAN (wrong_tag sim_device) 16)) \<noteq> c_char CHR ''E'' \<and>
   snd (AppEraseFlashConfigSector ORDER_LITTLE_ENDIAN (wrong_tag sim_device) 16) = Inl (InvalidAnswerCommand (c_char CHR ''E'' + 1)) \<and>
   recvCmd (answer (wrong_tag sim_device) (AppSetFlashClockConfig example_app_h ORDER_LITTLE_ENDIAN (wrong_tag sim_device) [0xC0, 0xC1, 42, 0, 0xC4])) \<noteq> c_char CHR ''F'' \<and>
   snd (AppSetFlashClockConfig example_app_h ORDER_LITTLE_ENDIAN (wrong_tag sim_device) [0xC0, 0xC1, 42, 0, 0xC4]) = Inl (InvalidAnswerCommand (c_char CHR ''F'' + 1)) \<and>
   recvCmd (answer (wrong_tag sim_device) (AppGetAppointments example_app_h (wrong_tag sim_device))) \<noteq> c_char CHR ''r'' \<and>
   snd (AppGetAppointments example_app_h (wrong_tag sim_device)) = Inl (InvalidAnswerCommand (c_char CHR ''r'' + 1)) \<and>
   recvCmd (answer (wrong_tag sim_device) (AppSetAppointments example_app_h (wrong_tag sim_device) [1, 2, 3, 4, 5, 6, 7, 8, 9])) \<noteq> c_char CHR ''R'' \<and>
   snd (AppSetAppointments example_app_h (wrong_tag sim_device) [1, 2, 3, 4, 5, 6, 7, 8, 9]) = Inl (InvalidAnswerCommand (c_char CHR ''R'' + 1))"
  using tag_mismatch_is_fatal
    [where link = "wrong_tag sim_device" and bo = ORDER_LITTLE_ENDIAN and h = example_app_h
       and dateTime = "[1, 2, 3, 4, 5, 6, 7]" and matrix = "[1, 2, 3, 4, 5, 6, 7, 8]"
       and intensity = "[9]" and float_mem = "\<lambda>_. [0, 0, 0, 0]" and ppmDifference = "Finite 10"
       and standby = "[1, 2, 3, 4, 5]" and pageNumber = 5 and startPage = 16
       and config = "[0xC0, 0xC1, 42, 0, 0xC4]" and appointments = "[1, 2, 3, 4, 5, 6, 7, 8, 9]"]
  by (simp add: exits_on_wrong_tag_def answer_def wrong_tag_def sim_device_def c_char_def)

section \<open>C9: the command is checked before the length\<close>

text \<open>
  C9. In every operation the check of the command comes before the check of the
  length: a reply that has both another command and another length than expected makes
  the operation exit with the invalid-answer-command error naming the command, not
  with the invalid-length error.
\<close>

theorem tag_check_precedes_length_check:
  "tag_checked_before_length link (c_char CHR ''v'') sizeof_AppVersionType (AppGetVersion bo link) \<and>
   tag_checked_before_length link (c_char CHR ''t'') (sizeof_AppDateTimeType h) (AppGetDateTime h link) \<and>
   tag_checked_before_length link (c_char CHR ''T'') 0 (AppSetDateTime h link dateTime) \<and>
   tag_checked_before_length link (c_char CHR ''A'') 0 (AppSetNormalMode link) \<and>
   tag_checked_before_length link (c_char CHR ''a'') 0 (AppSetPreviewMode link) \<and>
   tag_checked_before_length link (c_char CHR ''X'') 0 (AppFactoryReset link) \<and>
   tag_checked_before_length link (c_char CHR ''!'') 0 (AppActivateBootloader link) \<and>
   tag_checked_before_length link (c_char CHR ''D'') 0 (AppSetPreviewMatrix h link matrix) \<and>
   tag_checked_before_length link (c_char CHR ''b'') (sizeof_AppIntensityType h) (AppGetIntensity h link) \<and>
   tag_checked_before_length link (c_char CHR ''B'') 0 (AppSetIntensity h link intensity) \<and>
   tag_checked_before_length link (c_char CHR ''c'') (sizeof_AppLastCalibrationType h) (AppGetLastCalibration h link) \<and>
   tag_checked_before_length link (c_char CHR ''C'') 0 (AppSetRtcCalibration h float_mem link ppmDifference) \<and>
   tag_checked_before_length link (c_char CHR ''s'') (sizeof_AppStandbyType h) (AppGetStandby h link) \<and>
   tag_checked_before_length link (c_char CHR ''S'') 0 (AppSetStandby h link standby) \<and>
   tag_checked_before_length link (c_char CHR ''f'') (sizeof_AppFlashConfigPageType h) (AppGetFlashConfigPage h bo link pageNumber) \<and>
   tag_checked_before_length link (c_char CHR ''E'') 2 (AppEraseFlashConfigSector bo link startPage) \<and>
   tag_checked_before_length link (c_char CHR ''F'') 2 (AppSetFlashClockConfig h bo link config) \<and>
   tag_checked_before_length link (c_char CHR ''r'') (sizeof_AppointmentsConfigType h) (AppGetAppointments h link) \<and>
   tag_checked_before_length link (c_char CHR ''R'') 0 (AppSetAppointments h link appointments)"
  unfolding operation_defs Let_def
  by (intro conjI tag_checked_before_length_direct tag_checked_before_length_on_return)

text \<open>The theorem on a link that changes both the command and the length.\<close>

theorem tag_check_precedes_length_check_witness:
  "recvCmd (answer (wrong_length (wrong_tag sim_device)) (AppGetVersion ORDER_LITTLE_ENDIAN (wrong_length (wrong_tag sim_device)))) \<noteq> c_char CHR ''v'' \<and>
   recvLength (answer (wrong_length (wrong_tag sim_device)) (AppGetVersion ORDER_LITTLE_ENDIAN (wrong_length (wrong_tag sim_device)))) \<noteq> sizeof_AppVersionType \<and>
   snd (AppGetVersion ORDER_LITTLE_ENDIAN (wrong_length (wrong_tag sim_device))) = Inl (InvalidAnswerCommand (c_char CHR ''v'' + 1)) \<and>
   recvCmd (answer (wrong_length (wrong_tag sim_device)) (AppGetDateTime example_app_h (wrong_length (wrong_tag sim_device)))) \<noteq> c_char CHR ''t'' \<and>
   recvLength (answer (wrong_length (wrong_tag sim_device)) (AppGetDateTime example_app_h (wrong_length (wrong_tag sim_device)))) \<noteq> 7 \<and>
   snd (AppGetDateTime example_app_h (wrong_length (wrong_tag sim_device))) = Inl (InvalidAnswerCommand (c_char CHR ''t'' + 1)) \<and>
   recvCmd (answer (wrong_length (wrong_tag sim_device)) (AppSetDateTime example_app_h (wrong_length (wrong_tag sim_device)) [1, 2, 3, 4, 5, 6, 7])) \<noteq> c_char CHR ''T'' \<and>
   recvLength (answer (wrong_length (wrong_tag sim_device)) (AppSetDateTime example_app_h (wrong_length (wrong_tag sim_device)) [1, 2, 3, 4, 5, 6, 7])) \<noteq> 0 \<and>
   snd (AppSetDateTime example_app_h (wrong_length (wrong_tag sim_device)) [1, 2, 3, 4, 5, 6, 7]) = Inl (InvalidAnswerCommand (c_char CHR ''T'' + 1)) \<and>
   recvCmd (answer (wrong_length (wrong_tag sim_device)) (AppSetNormalMode (wrong_length (wrong_tag sim_device)))) \<noteq> c_char CHR ''A'' \<and>
   recvLength (answer (wrong_length (wrong_tag sim_device)) (AppSetNormalMode (wrong_length (wrong_tag sim_device)))) \<noteq> 0 \<and>
   snd (AppSetNormalMode (wrong_length (wrong_tag sim_device))) = Inl (InvalidAnswerCommand (c_char CHR ''A'' + 1)) \<and>
   recvCmd (answer (wrong_length (wrong_tag sim_device)) (AppSetPreviewMode (wrong_length (wrong_tag sim_device)))) \<noteq> c_char CHR ''a'' \<and>
   recvLength (answer (wrong_length (wrong_tag sim_device)) (AppSetPreviewMode (wrong_length (wrong_tag sim_device)))) \<noteq> 0 \<and>
   snd (AppSetPreviewMode (wrong_length (wrong_tag sim_device))) = Inl (InvalidAnswerCommand (c_char CHR ''a'' + 1)) \<and>
   recvCmd (answer (wrong_length (wrong_tag sim_device)) (AppFactoryReset (wrong_length (wrong_tag sim_device)))) \<noteq> c_char CHR ''X'' \<and>
   recvLength (answer (wrong_length (wrong_tag sim_device)) (AppFactoryReset (wrong_length (wrong_tag sim_device)))) \<noteq> 0 \<and>
   snd (AppFactoryReset (wrong_length (wrong_tag sim_device))) = Inl (InvalidAnswerCommand (c_char CHR ''X'' + 1)) \<and>
   recvCmd (answer (wrong_length (wrong_tag sim_device)) (AppActivateBootloader (wrong_length (wrong_tag sim_device)))) \<noteq> c_char CHR ''!'' \<and>
   recvLength (answer (wrong_length (wrong_tag sim_device)) (AppActivateBootloader (wrong_length (wrong_tag sim_device)))) \<noteq> 0 \<and>
   snd (AppActivateBootloader (wrong_length (wrong_tag sim_device))) = Inl (InvalidAnswerCommand (c_char CHR ''!'' + 1)) \<and>
   recvCmd (answer (wrong_length (wrong_tag sim_device)) (AppSetPreviewMatrix example_app_h (wrong_length (wrong_tag sim_device)) [1, 2, 3, 4, 5, 6, 7, 8])) \<noteq> c_char CHR ''D'' \<and>
   recvLength (answer (wrong_length (wrong_tag sim_device)) (AppSetPreviewMatrix example_app_h (wrong_length (wrong_tag sim_device)) [1, 2, 3, 4, 5, 6, 7, 8])) \<noteq> 0 \<and>
   snd (AppSetPreviewMatrix example_app_h (wrong_length (wrong_tag sim_device)) [1, 2, 3, 4, 5, 6, 7, 8]) = Inl (InvalidAnswerCommand (c_char CHR ''D'' + 1)) \<and>
   recvCmd (answer (wrong_length (wrong_tag sim_device)) (AppGetIntensity example_app_h (wrong_length (wrong_tag sim_device)))) \<noteq> c_char CHR ''b'' \<and>
   recvLength (answer (wrong_length (wrong_tag sim_device)) (AppGetIntensity example_app_h (wrong_length (wrong_tag sim_device)))) \<noteq> 1 \<and>
   snd (AppGetIntensity example_app_h (wrong_length (wrong_tag sim_device))) = Inl (InvalidAnswerCommand (c_char CHR ''b'' + 1)) \<and>
   recvCmd (answer (wrong_length (wrong_tag sim_device)) (AppSetIntensity example_app_h (wrong_length (wrong_tag sim_device)) [9])) \<noteq> c_char CHR ''B'' \<and>
   recvLength (answer (wrong_length (wrong_tag sim_device)) (AppSetIntensity example_app_h (wrong_length (wrong_tag sim_device)) [9])) \<noteq> 0 \<and>
   snd (AppSetIntensity example_app_h (wrong_length (wrong_tag sim_device)) [9]) = Inl (InvalidAnswerCommand (c_char CHR ''B'' + 1)) \<and>
   recvCmd (answer (wrong_length (wrong_tag sim_device)) (AppGetLastCalibration example_app_h (wrong_length (wrong_tag sim_device)))) \<noteq> c_char CHR ''c'' \<and>
   recvLength (answer (wrong_length (wrong_tag sim_device)) (AppGetLastCalibration example_app_h (wrong_length (wrong_tag sim_device)))) \<noteq> 11 \<and>
   snd (AppGetLastCalibration example_app_h (wrong_length (wrong_tag sim_device))) = Inl (InvalidAnswerCommand (c_char CHR ''c'' + 1)) \<and>
   recvCmd (answer (wrong_length (wrong_tag sim_device)) (AppSetRtcCalibration example_app_h (\<lambda>_. [0, 0, 0, 0]) (wrong_length (wrong_tag sim_device)) (Finite 10))) \<noteq> c_char CHR ''C'' \<and>
   recvLength (answer (wrong_length (wrong_tag sim_device)) (AppSetRtcCalibration example_app_h (\<lambda>_. [0, 0, 0, 0]) (wrong_length (wrong_tag sim_device)) (Finite 10))) \<noteq> 0 \<and>
   snd (AppSetRtcCalibration example_app_h (\<lambda>_. [0, 0, 0, 0]) (wrong_length (wrong_tag sim_device)) (Finite 10)) = Inl (InvalidAnswerCommand (c_char CHR ''C'' + 1)) \<and>
   recvCmd (answer (wrong_length (wrong_tag sim_device)) (AppGetStandby example_app_h (wrong_length (wrong_tag sim_device)))) \<noteq> c_char CHR ''s'' \<and>
   recvLength (answer (wrong_length (wrong_tag sim_device)) (AppGetStandby example_app_h (wrong_length (wrong_tag sim_device)))) \<noteq> 5 \<and>
   snd (AppGetStandby example_app_h (wrong_length (wrong_tag sim_device))) = Inl (InvalidAnswerCommand (c_char CHR ''s'' + 1)) \<and>
   recvCmd (answer (wrong_length (wrong_tag sim_device)) (AppSetStandby example_app_h (wrong_length (wrong_tag sim_device)) [1, 2, 3, 4, 5])) \<noteq> c_char CHR ''S'' \<and>
   recvLength (answer (wrong_length (wrong_tag sim_device)) (AppSetStandby example_app_h (wrong_length (wrong_tag sim_device)) [1, 2, 3, 4, 5])) \<noteq> 0 \<and>
   snd (AppSetStandby example_app_h (wrong_length (wrong_tag sim_device)) [1, 2, 3, 4, 5]) = Inl (InvalidAnswerCommand (c_char CHR ''S'' + 1)) \<and>
   recvCmd (answer (wrong_length (wrong_tag sim_device)) (AppGetFlashConfigPage example_app_h ORDER_LITTLE_ENDIAN (wrong_length (wrong_tag sim_device)) 5)) \<noteq> c_char CHR ''f'' \<and>
   recvLength (answer (wrong_length (wrong_tag sim_device)) (AppGetFlashConfigPage example_app_h ORDER_LITTLE_ENDIAN (wrong_length (wrong_tag sim_device)) 5)) \<noteq> 6 \<and>
   snd (AppGetFlashConfigPage example_app_h ORDER_LITTLE_ENDIAN (wrong_length (wrong_tag sim_device)) 5) = Inl (InvalidAnswerCommand (c_char CHR ''f'' + 1)) \<and>
   recvCmd (answer (wrong_length (wrong_tag sim_device)) (AppEraseFlashConfigSector ORDER_LITTLE_ENDIAN (wrong_length (wrong_tag sim_device)) 16)) \<noteq> c_char CHR ''E'' \<and>
   recvLength (answer (wrong_length (wrong_tag sim_device)) (AppEraseFlashConfigSector ORDER_LITTLE_ENDIAN (wrong_length (wrong_tag sim_device)) 16)) \<noteq> 2 \<and>
   snd (AppEraseFlashConfigSector ORDER_LITTLE_ENDIAN (wrong_length (wrong_tag sim_device)) 16) = Inl (InvalidAnswerCommand (c_char CHR ''E'' + 1)) \<and>
   recvCmd (answer (wrong_length (wrong_tag sim_device)) (AppSetFlashClockConfig example_app_h ORDER_LITTLE_ENDIAN (wrong_length (wrong_tag sim_device)) [0xC0, 0xC1, 42, 0, 0xC4])) \<noteq> c_char CHR ''F'' \<and>
   recvLength (answer (wrong_length (wrong_tag sim_device)) (AppSetFlashClockConfig example_app_h ORDER_LITTLE_ENDIAN (wrong_length (wrong_tag sim_device)) [0xC0, 0xC1, 42, 0, 0xC4])) \<noteq> 2 \<and>
   snd (AppSetFlashClockConfig example_app_h ORDER_LITTLE_ENDIAN (wrong_length (wrong_tag sim_device)) [0xC0, 0xC1, 42, 0, 0xC4]) = Inl (InvalidAnswerCommand (c_char CHR ''F'' + 1)) \<and>
   recvCmd (answer (wrong_length (wrong_tag sim_device)) (AppGetAppointments example_app_h (wrong_length (wrong_tag sim_device)))) \<noteq> c_char CHR ''r'' \<and>
   recvLength (answer (wrong_length (wrong_tag sim_device)) (AppGetAppointments example_app_h (wrong_length (wrong_tag sim_device)))) \<noteq> 9 \<and>
   snd (AppGetAppointments example_app_h (wrong_length (wrong_tag sim_device))) = Inl (InvalidAnswerCommand (c_char CHR ''r'' + 1)) \<and>
   recvCmd (answer (wrong_length (wrong_tag sim_device)) (AppSetAppointments example_app_h (wrong_length (wrong_tag sim_device)) [1, 2, 3, 4, 5, 6, 7, 8, 9])) \<noteq> c_char CHR ''R'' \<and>
   recvLength (answer (wrong_length (wrong_tag sim_device)) (AppSetAppointments example_app_h (wrong_length (wrong_tag sim_device)) [1, 2, 3, 4, 5, 6, 7, 8, 9])) \<noteq> 0 \<and>
   snd (AppSetAppointments example_app_h (wrong_length (wrong_tag sim_device)) [1, 2, 3, 4, 5, 6, 7, 8, 9]) = Inl (InvalidAnswerCommand (c_char CHR ''R'' + 1))"
  using tag_check_precedes_length_check
    [where link = "wrong_length (wrong_tag sim_device)" and bo = ORDER_LITTLE_ENDIAN and h = example_app_h
       and dateTime = "[1, 2, 3, 4, 5, 6, 7]" and matrix = "[1, 2, 3, 4, 5, 6, 7, 8]"
       and intensity = "[9]" and float_mem = "\<lambda>_. [0, 0, 0, 0]" and ppmDifference = "Finite 10"
       and standby = "[1, 2, 3, 4, 5]" and pageNumber = 5 and startPage = 16
       and config = "[0xC0, 0xC1, 42, 0, 0xC4]" and appointments = "[1, 2, 3, 4, 5, 6, 7, 8, 9]"]
  by (simp add: tag_checked_before_length_def answer_def wrong_tag_def wrong_length_def
        sim_device_def c_char_def example_app_h_def sizeof_AppVersionType_def)

section \<open>C3: a reply of another length\<close>

text \<open>
  C3 says that a reply whose length differs from the expected one always ends in the
  invalid-length error. The code reports the length only when the command matched:
  with the command wrong as well, the normal-mode switch exits with the
  invalid-answer-command error although the reply is one byte long where none is
  expected.
\<close>

theorem length_mismatch_behind_wrong_tag:
  "recvLength (answer (wrong_length (wrong_tag sim_device))
      (AppSetNormalMode (wrong_length (wrong_tag sim_device)))) = 1 \<and>
   recvMax (fst (AppSetNormalMode (wrong_length (wrong_tag sim_device)))) = 0 \<and>
   snd (AppSetNormalMode (wrong_length (wrong_tag sim_device))) =
     Inl (InvalidAnswerCommand (c_char CHR ''B'')) \<and>
   snd (AppSetNormalMode (wrong_length (wrong_tag sim_device))) \<noteq> Inl (InvalidLength 1)"
  by (simp add: AppSetNormalMode_def outcome_simps wrong_tag_def wrong_length_def
        sim_device_def c_char_def)

text \<open>
  C3, amended. Every operation expects a fixed length, and a reply that carries the
  command sent and any other length, shorter or longer, makes it exit with the
  invalid-length error naming the length received.
\<close>

theorem length_mismatch_is_fatal:
  "exits_on_wrong_length link (c_char CHR ''v'') sizeof_AppVersionType (AppGetVersion bo link) \<and>
   exits_on_wrong_length link (c_char CHR ''t'') (sizeof_AppDateTimeType h) (AppGetDateTime h link) \<and>
   exits_on_wrong_length link (c_char CHR ''T'') 0 (AppSetDateTime h link dateTime) \<and>
   exits_on_wrong_length link (c_char CHR ''A'') 0 (AppSetNormalMode link) \<and>
   exits_on_wrong_length link (c_char CHR ''a'') 0 (AppSetPreviewMode link) \<and>
   exits_on_wrong_length link (c_char CHR ''X'') 0 (AppFactoryReset link) \<and>
   exits_on_wrong_length link (c_char CHR ''!'') 0 (AppActivateBootloader link) \<and>
   exits_on_wrong_length link (c_char CHR ''D'') 0 (AppSetPreviewMatrix h link matrix) \<and>
   exits_on_wrong_length link (c_char CHR ''b'') (sizeof_AppIntensityType h) (AppGetIntensity h link) \<and>
   exits_on_wrong_length link (c_char CHR ''B'') 0 (AppSetIntensity h link intensity) \<and>
   exits_on_wrong_length link (c_char CHR ''c'') (sizeof_AppLastCalibrationType h) (AppGetLastCalibration h link) \<and>
   exits_on_wrong_length link (c_char CHR ''C'') 0 (AppSetRtcCalibration h float_mem link ppmDifference) \<and>
   exits_on_wrong_length link (c_char CHR ''s'') (sizeof_AppStandbyType h) (AppGetStandby h link) \<and>
   exits_on_wrong_length link (c_char CHR ''S'') 0 (AppSetStandby h link standby) \<and>
   exits_on_wrong_length link (c_char CHR ''f'') (sizeof_AppFlashConfigPageType h) (AppGetFlashConfigPage h bo link pageNumber) \<and>
   exits_on_wrong_length link (c_char CHR ''E'') 2 (AppEraseFlashConfigSector bo link startPage) \<and>
   exits_on_wrong_length link (c_char CHR ''F'') 2 (AppSetFlashClockConfig h bo link config) \<and>
   exits_on_wrong_length link (c_char CHR ''r'') (sizeof_AppointmentsConfigType h) (AppGetAppointments h link) \<and>
   exits_on_wrong_length link (c_char CHR ''R'') 0 (AppSetAppointments h link appointments)"
  unfolding operation_defs Let_def
  by (intro conjI exits_on_wrong_length_direct exits_on_wrong_length_on_return)

text \<open>The theorem on a link that reports one byte more than the device sent.\<close>

theorem length_mismatch_is_fatal_witness:
  "recvCmd (answer (wrong_length sim_device) (AppGetVersion ORDER_LITTLE_ENDIAN (wrong_length sim_device))) = c_char CHR ''v'' \<and>
   recvLength (answer (wrong_length sim_device) (AppGetVersion ORDER_LITTLE_ENDIAN (wrong_length sim_device))) \<noteq> sizeof_AppVersionType \<and>
   snd (AppGetVersion ORDER_LITTLE_ENDIAN (wrong_length sim_device)) = Inl (InvalidLength (sizeof_AppVersionType + 1)) \<and>
   recvCmd (answer (wrong_length sim_device) (AppGetDateTime example_app_h (wrong_length sim_device))) = c_char CHR ''t'' \<and>
   recvLength (answer (wrong_length sim_device) (AppGetDateTime example_app_h (wrong_length sim_device))) \<noteq> 7 \<and>
   snd (AppGetDateTime example_app_h (wrong_length sim_device)) = Inl (InvalidLength (7 + 1)) \<and>
   recvCmd (answer (wrong_length sim_device) (AppSetDateTime example_app_h (wrong_length sim_device) [1, 2, 3, 4, 5, 6, 7])) = c_char CHR ''T'' \<and>
   recvLength (answer (wrong_length sim_device) (AppSetDateTime example_app_h (wrong_length sim_device) [1, 2, 3, 4, 5, 6, 7])) \<noteq> 0 \<and>
   snd (AppSetDateTime example_app_h (wrong_length sim_device) [1, 2, 3, 4, 5, 6, 7]) = Inl (InvalidLength (0 + 1)) \<and>
   recvCmd (answer (wrong_length sim_device) (AppSetNormalMode (wrong_length sim_device))) = c_char CHR ''A'' \<and>
   recvLength (answer (wrong_length sim_device) (AppSetNormalMode (wrong_length sim_device))) \<noteq> 0 \<and>
   snd (AppSetNormalMode (wrong_length sim_device)) = Inl (InvalidLength (0 + 1)) \<and>
   recvCmd (answer (wrong_length sim_device) (AppSetPreviewMode (wrong_length sim_device))) = c_char CHR ''a'' \<and>
   recvLength (answer (wrong_length sim_device) (AppSetPreviewMode (wrong_length sim_device))) \<noteq> 0 \<and>
   snd (AppSetPreviewMode (wrong_length sim_device)) = Inl (InvalidLength (0 + 1)) \<and>
   recvCmd (answer (wrong_length sim_device) (AppFactoryReset (wrong_length sim_device))) = c_char CHR ''X'' \<and>
   recvLength (answer (wrong_length sim_device) (AppFactoryReset (wrong_length sim_device))) \<noteq> 0 \<and>
   snd (AppFactoryReset (wrong_length sim_device)) = Inl (InvalidLength (0 + 1)) \<and>
   recvCmd (answer (wrong_length sim_device) (AppActivateBootloader (wrong_length sim_device))) = c_char CHR ''!'' \<and>
   recvLength (answer (wrong_length sim_device) (AppActivateBootloader (wrong_length sim_device))) \<noteq> 0 \<and>
   snd (AppActivateBootloader (wrong_length sim_device)) = Inl (InvalidLength (0 + 1)) \<and>
   recvCmd (answer (wrong_length sim_device) (AppSetPreviewMatrix example_app_h (wrong_length sim_device) [1, 2, 3, 4, 5, 6, 7, 8])) = c_char CHR ''D'' \<and>
   recvLength (answer (wrong_length sim_device) (AppSetPreviewMatrix example_app_h (wrong_length sim_device) [1, 2, 3, 4, 5, 6, 7, 8])) \<noteq> 0 \<and>
   snd (AppSetPreviewMatrix example_app_h (wrong_length sim_device) [1, 2, 3, 4, 5, 6, 7, 8]) = Inl (InvalidLength (0 + 1)) \<and>
   recvCmd (answer (wrong_length sim_device) (AppGetIntensity example_app_h (wrong_length sim_device))) = c_char CHR ''b'' \<and>
   recvLength (answer (wrong_length sim_device) (AppGetIntensity example_app_h (wrong_length sim_device))) \<noteq> 1 \<and>
   snd (AppGetIntensity example_app_h (wrong_length sim_device)) = Inl (InvalidLength (1 + 1)) \<and>
   recvCmd (answer (wrong_length sim_device) (AppSetIntensity example_app_h (wrong_length sim_device) [9])) = c_char CHR ''B'' \<and>
   recvLength (answer (wrong_length sim_device) (AppSetIntensity example_app_h (wrong_length sim_device) [9])) \<noteq> 0 \<and>
   snd (AppSetIntensity example_app_h (wrong_length sim_device) [9]) = Inl (InvalidLength (0 + 1)) \<and>
   recvCmd (answer (wrong_length sim_device) (AppGetLastCalibration example_app_h (wrong_length sim_device))) = c_char CHR ''c'' \<and>
   recvLength (answer (wrong_length sim_device) (AppGetLastCalibration example_app_h (wrong_length sim_device))) \<noteq> 11 \<and>
   snd (AppGetLastCalibration example_app_h (wrong_length sim_device)) = Inl (InvalidLength (11 + 1)) \<and>
   recvCmd (answer (wrong_length sim_device) (AppSetRtcCalibration example_app_h (\<lambda>_. [0, 0, 0, 0]) (wrong_length sim_device) (Finite 10))) = c_char CHR ''C'' \<and>
   recvLength (answer (wrong_length sim_device) (AppSetRtcCalibration example_app_h (\<lambda>_. [0, 0, 0, 0]) (wrong_length sim_device) (Finite 10))) \<noteq> 0 \<and>
   snd (AppSetRtcCalibration example_app_h (\<lambda>_. [0, 0, 0, 0]) (wrong_length sim_device) (Finite 10)) = Inl (InvalidLength (0 + 1)) \<and>
   recvCmd (answer (wrong_length sim_device) (AppGetStandby example_app_h (wrong_length sim_device))) = c_char CHR ''s'' \<and>
   recvLength (answer (wrong_length sim_device) (AppGetStandby example_app_h (wrong_length sim_device))) \<noteq> 5 \<and>
   snd (AppGetStandby example_app_h (wrong_length sim_device)) = Inl (InvalidLength (5 + 1)) \<and>
   recvCmd (answer (wrong_length sim_device) (AppSetStandby example_app_h (wrong_length sim_device) [1, 2, 3, 4, 5])) = c_char CHR ''S'' \<and>
   recvLength (answer (wrong_length sim_device) (AppSetStandby example_app_h (wrong_length sim_device) [1, 2, 3, 4, 5])) \<noteq> 0 \<and>
   snd (AppSetStandby example_app_h (wrong_length sim_device) [1, 2, 3, 4, 5]) = Inl (InvalidLength (0 + 1)) \<and>
   recvCmd (answer (wrong_length sim_device) (AppGetFlashConfigPage example_app_h ORDER_LITTLE_ENDIAN (wrong_length sim_device) 5)) = c_char CHR ''f'' \<and>
   recvLength (answer (wrong_length sim_device) (AppGetFlashConfigPage example_app_h ORDER_LITTLE_ENDIAN (wrong_length sim_device) 5)) \<noteq> 6 \<and>
   snd (AppGetFlashConfigPage example_app_h ORDER_LITTLE_ENDIAN (wrong_length sim_device) 5) = Inl (InvalidLength (6 + 1)) \<and>
   recvCmd (answer (wrong_length sim_device) (AppEraseFlashConfigSector ORDER_LITTLE_ENDIAN (wrong_length sim_device) 16)) = c_char CHR ''E'' \<and>
   recvLength (answer (wrong_length sim_device) (AppEraseFlashConfigSector ORDER_LITTLE_ENDIAN (wrong_length sim_device) 16)) \<noteq> 2 \<and>
   snd (AppEraseFlashConfigSector ORDER_LITTLE_ENDIAN (wrong_length sim_device) 16) = Inl (InvalidLength (2 + 1)) \<and>
   recvCmd (answer (wrong_length sim_device) (AppSetFlashClockConfig example_app_h ORDER_LITTLE_ENDIAN (wrong_length sim_device) [0xC0, 0xC1, 42, 0, 0xC4])) = c_char CHR ''F'' \<and>
   recvLength (answer (wrong_length sim_device) (AppSetFlashClockConfig example_app_h ORDER_LITTLE_ENDIAN (wrong_length sim_device) [0xC0, 0xC1, 42, 0, 0xC4])) \<noteq> 2 \<and>
   snd (AppSetFlashClockConfig example_app_h ORDER_LITTLE_ENDIAN (wrong_length sim_device) [0xC0, 0xC1, 42, 0, 0xC4]) = Inl (InvalidLength (2 + 1)) \<and>
   recvCmd (answer (wrong_length sim_device) (AppGetAppointments example_app_h (wrong_length sim_device))) = c_char CHR ''r'' \<and>
   recvLength (answer (wrong_length sim_device) (AppGetAppointments example_app_h (wrong_length sim_device))) \<noteq> 9 \<and>
   snd (AppGetAppointments example_app_h (wrong_length sim_device)) = Inl (InvalidLength (9 + 1)) \<and>
   recvCmd (answer (wrong_length sim_device) (AppSetAppointments example_app_h (wrong_length sim_device) [1, 2, 3, 4, 5, 6, 7, 8, 9])) = c_char CHR ''R'' \<and>
   recvLength (answer (wrong_length sim_device) (AppSetAppointments example_app_h (wrong_length sim_device) [1, 2, 3, 4, 5, 6, 7, 8, 9])) \<noteq> 0 \<and>
   snd (AppSetAppointments example_app_h (wrong_length sim_device) [1, 2, 3, 4, 5, 6, 7, 8, 9]) = Inl (InvalidLength (0 + 1))"
  using length_mismatch_is_fatal
    [where link = "wrong_length sim_device" and bo = ORDER_LITTLE_ENDIAN and h = example_app_h
       and dateTime = "[1, 2, 3, 4, 5, 6, 7]" and matrix = "[1, 2, 3, 4, 5, 6, 7, 8]"
       and intensity = "[9]" and float_mem = "\<lambda>_. [0, 0, 0, 0]" and ppmDifference = "Finite 10"
       and standby = "[1, 2, 3, 4, 5]" and pageNumber = 5 and startPage = 16
       and config = "[0xC0, 0xC1, 42, 0, 0xC4]" and appointments = "[1, 2, 3, 4, 5, 6, 7, 8, 9]"]
  by (simp add: exits_on_wrong_length_def answer_def wrong_length_def
        sim_device_def c_char_def example_app_h_def sizeof_AppVersionType_def)

section \<open>C10: operations without a response payload\<close>

text \<open>
  C10. The ten operations without a response payload (date and time set, the four mode
  switches, preview matrix set, intensity set, RTC calibration set, standby set,
  appointments set) still receive and check a reply: they expect length 0, return
  exactly when the reply has the command sent and length 0, and exit with the
  invalid-answer-command or the invalid-length error otherwise.
\<close>

theorem empty_reply_is_validated:
  "validates_empty_reply link (c_char CHR ''T'') (AppSetDateTime h link dateTime) \<and>
   validates_empty_reply link (c_char CHR ''A'') (AppSetNormalMode link) \<and>
   validates_empty_reply link (c_char CHR ''a'') (AppSetPreviewMode link) \<and>
   validates_empty_reply link (c_char CHR ''X'') (AppFactoryReset link) \<and>
   validates_empty_reply link (c_char CHR ''!'') (AppActivateBootloader link) \<and>
   validates_empty_reply link (c_char CHR ''D'') (AppSetPreviewMatrix h link matrix) \<and>
   validates_empty_reply link (c_char CHR ''B'') (AppSetIntensity h link intensity) \<and>
   validates_empty_reply link (c_char CHR ''C'') (AppSetRtcCalibration h float_mem link ppmDifference) \<and>
   validates_empty_reply link (c_char CHR ''S'') (AppSetStandby h link standby) \<and>
   validates_empty_reply link (c_char CHR ''R'') (AppSetAppointments h link appointments)"
  unfolding operation_defs Let_def
  by (intro conjI validates_empty_reply_on_return)

section \<open>C1: a reply with the command sent and the length expected\<close>

text \<open>
  C1 says that the command sent and the expected length are enough for every operation
  to return. The three flash operations also compare the page number of the reply with
  the one requested: an erase of the sector at page 16, answered with command
  \<^verbatim>\<open>E\<close>, two bytes and page 32, exits with the bad-page-number error.
\<close>

theorem valid_reply_with_other_page_fails:
  "valid_reply (echo_page 32 sim_device)
     (AppEraseFlashConfigSector ORDER_LITTLE_ENDIAN (echo_page 32 sim_device) 16) \<and>
   snd (AppEraseFlashConfigSector ORDER_LITTLE_ENDIAN (echo_page 32 sim_device) 16) =
     Inl (BadPageNumber 32)"
  by code_simp

text \<open>
  C1, amended. When the reply has the command that was sent and exactly the expected
  length, and for the three flash operations also carries the requested page number
  in wire order, every operation returns. The get operations return what the device
  encoded: the version has the three values the device sent in wire order, the flash
  page is the received object with its page-number member in host order, and date and
  time, intensity, last calibration, standby and appointments are the received bytes.
\<close>

theorem valid_reply_returns:
  "(recvBuf (answer link (AppGetVersion bo link)) = wire16 v1 @ wire16 v2 @ wire16 v3 \<longrightarrow>
      returns_on_valid_reply link (AppGetVersion bo link)
        \<lparr>major = v1, minor = v2, revision = v3\<rparr>) \<and>
   returns_on_valid_reply link (AppGetDateTime h link)
     (recvBuf (answer link (AppGetDateTime h link))) \<and>
   returns_on_valid_reply link (AppSetDateTime h link dateTime) () \<and>
   returns_on_valid_reply link (AppSetNormalMode link) () \<and>
   returns_on_valid_reply link (AppSetPreviewMode link) () \<and>
   returns_on_valid_reply link (AppFactoryReset link) () \<and>
   returns_on_valid_reply link (AppActivateBootloader link) () \<and>
   returns_on_valid_reply link (AppSetPreviewMatrix h link matrix) () \<and>
   returns_on_valid_reply link (AppGetIntensity h link)
     (recvBuf (answer link (AppGetIntensity h link))) \<and>
   returns_on_valid_reply link (AppSetIntensity h link intensity) () \<and>
   returns_on_valid_reply link (AppGetLastCalibration h link)
     (recvBuf (answer link (AppGetLastCalibration h link))) \<and>
   returns_on_valid_reply link (AppSetRtcCalibration h float_mem link ppmDifference) () \<and>
   returns_on_valid_reply link (AppGetStandby h link)
     (recvBuf (answer link (AppGetStandby h link))) \<and>
   returns_on_valid_reply link (AppSetStandby h link standby) () \<and>
   (Suc (offsetof_AppFlashConfigPageType_pageNumber h)
      < length (recvBuf (answer link (AppGetFlashConfigPage h bo link pageNumber))) \<and>
    echoed_page (recvBuf (answer link (AppGetFlashConfigPage h bo link pageNumber)))
      (offsetof_AppFlashConfigPageType_pageNumber h) = pageNumber \<longrightarrow>
      returns_on_valid_reply link (AppGetFlashConfigPage h bo link pageNumber)
        (store16 bo (recvBuf (answer link (AppGetFlashConfigPage h bo link pageNumber)))
           (offsetof_AppFlashConfigPageType_pageNumber h) pageNumber)) \<and>
   (echoed_page (recvBuf (answer link (AppEraseFlashConfigSector bo link startPage))) 0 = startPage \<longrightarrow>
      returns_on_valid_reply link (AppEraseFlashConfigSector bo link startPage) ()) \<and>
   (Suc (offsetof_AppFlashClockConfigType_pageNumber h) < length config \<and>
    echoed_page (recvBuf (answer link (AppSetFlashClockConfig h bo link config))) 0 =
      load16 bo config (offsetof_AppFlashClockConfigType_pageNumber h) \<longrightarrow>
      returns_on_valid_reply link (AppSetFlashClockConfig h bo link config) config) \<and>
   returns_on_valid_reply link (AppGetAppointments h link)
     (recvBuf (answer link (AppGetAppointments h link))) \<and>
   returns_on_valid_reply link (AppSetAppointments h link appointments) ()"
  apply (intro conjI version_decoded flash_page_returned erase_returned clock_config_returned)
  unfolding operation_defs
  apply (intro returns_direct returns_unit)+
  done

text \<open>The theorem on the simulated device, on a little-endian host.\<close>

theorem valid_reply_returns_witness:
  "recvBuf (answer sim_device (AppGetVersion ORDER_LITTLE_ENDIAN sim_device)) = wire16 1 @ wire16 2 @ wire16 3 \<and>
   valid_reply sim_device (AppGetVersion ORDER_LITTLE_ENDIAN sim_device) \<and>
   snd (AppGetVersion ORDER_LITTLE_ENDIAN sim_device) = Inr \<lparr>major = 1, minor = 2, revision = 3\<rparr> \<and>
   valid_reply sim_device (AppGetDateTime example_app_h sim_device) \<and>
   snd (AppGetDateTime example_app_h sim_device) = Inr (replicate 7 0x5A) \<and>
   valid_reply sim_device (AppSetDateTime example_app_h sim_device [1, 2, 3, 4, 5, 6, 7]) \<and>
   snd (AppSetDateTime example_app_h sim_device [1, 2, 3, 4, 5, 6, 7]) = Inr () \<and>
   valid_reply sim_device (AppSetNormalMode sim_device) \<and>
   snd (AppSetNormalMode sim_device) = Inr () \<and>
   valid_reply sim_device (AppSetPreviewMode sim_device) \<and>
   snd (AppSetPreviewMode sim_device) = Inr () \<and>
   valid_reply sim_device (AppFactoryReset sim_device) \<and>
   snd (AppFactoryReset sim_device) = Inr () \<and>
   valid_reply sim_device (AppActivateBootloader sim_device) \<and>
   snd (AppActivateBootloader sim_device) = Inr () \<and>
   valid_reply sim_device (AppSetPreviewMatrix example_app_h sim_device [1, 2, 3, 4, 5, 6, 7, 8]) \<and>
   snd (AppSetPreviewMatrix example_app_h sim_device [1, 2, 3, 4, 5, 6, 7, 8]) = Inr () \<and>
   valid_reply sim_device (AppGetIntensity example_app_h sim_device) \<and>
   snd (AppGetIntensity example_app_h sim_device) = Inr [0x5A] \<and>
   valid_reply sim_device (AppSetIntensity example_app_h sim_device [9]) \<and>
   snd (AppSetIntensity example_app_h sim_device [9]) = Inr () \<and>
   valid_reply sim_device (AppGetLastCalibration example_app_h sim_device) \<and>
   snd (AppGetLastCalibration example_app_h sim_device) = Inr (replicate 11 0x5A) \<and>
   valid_reply sim_device (AppSetRtcCalibration example_app_h (\<lambda>_. [0, 0, 0, 0]) sim_device (Finite 10)) \<and>
   snd (AppSetRtcCalibration example_app_h (\<lambda>_. [0, 0, 0, 0]) sim_device (Finite 10)) = Inr () \<and>
   valid_reply sim_device (AppGetStandby example_app_h sim_device) \<and>
   snd (AppGetStandby example_app_h sim_device) = Inr (replicate 5 0x5A) \<and>
   valid_reply sim_device (AppSetStandby example_app_h sim_device [1, 2, 3, 4, 5]) \<and>
   snd (AppSetStandby example_app_h sim_device [1, 2, 3, 4, 5]) = Inr () \<and>
   Suc (offsetof_AppFlashConfigPageType_pageNumber example_app_h)
     < length (recvBuf (answer sim_device (AppGetFlashConfigPage example_app_h ORDER_LITTLE_ENDIAN sim_device 5))) \<and>
   echoed_page (recvBuf (answer sim_device (AppGetFlashConfigPage example_app_h ORDER_LITTLE_ENDIAN sim_device 5)))
     (offsetof_AppFlashConfigPageType_pageNumber example_app_h) = 5 \<and>
   valid_reply sim_device (AppGetFlashConfigPage example_app_h ORDER_LITTLE_ENDIAN sim_device 5) \<and>
   snd (AppGetFlashConfigPage example_app_h ORDER_LITTLE_ENDIAN sim_device 5) = Inr [5, 0, 0x11, 0x22, 0x33, 0x44] \<and>
   echoed_page (recvBuf (answer sim_device (AppEraseFlashConfigSector ORDER_LITTLE_ENDIAN sim_device 16))) 0 = 16 \<and>
   valid_reply sim_device (AppEraseFlashConfigSector ORDER_LITTLE_ENDIAN sim_device 16) \<and>
   snd (AppEraseFlashConfigSector ORDER_LITTLE_ENDIAN sim_device 16) = Inr () \<and>
   Suc (offsetof_AppFlashClockConfigType_pageNumber example_app_h)
     < length [0xC0, 0xC1, 42, 0, 0xC4 :: u8] \<and>
   echoed_page (recvBuf (answer sim_device (AppSetFlashClockConfig example_app_h ORDER_LITTLE_ENDIAN sim_device [0xC0, 0xC1, 42, 0, 0xC4]))) 0 =
     load16 ORDER_LITTLE_ENDIAN [0xC0, 0xC1, 42, 0, 0xC4]
       (offsetof_AppFlashClockConfigType_pageNumber example_app_h) \<and>
   valid_reply sim_device (AppSetFlashClockConfig example_app_h ORDER_LITTLE_ENDIAN sim_device [0xC0, 0xC1, 42, 0, 0xC4]) \<and>
   snd (AppSetFlashClockConfig example_app_h ORDER_LITTLE_ENDIAN sim_device [0xC0, 0xC1, 42, 0, 0xC4]) = Inr [0xC0, 0xC1, 42, 0, 0xC4] \<and>
   valid_reply sim_device (AppGetAppointments example_app_h sim_device) \<and>
   snd (AppGetAppointments example_app_h sim_device) = Inr (replicate 9 0x5A) \<and>
   valid_reply sim_device (AppSetAppointments example_app_h sim_device [1, 2, 3, 4, 5, 6, 7, 8, 9]) \<and>
   snd (AppSetAppointments example_app_h sim_device [1, 2, 3, 4, 5, 6, 7, 8, 9]) = Inr ()"
  using valid_reply_returns
    [where link = "sim_device" and bo = ORDER_LITTLE_ENDIAN and h = example_app_h
       and dateTime = "[1, 2, 3, 4, 5, 6, 7]" and matrix = "[1, 2, 3, 4, 5, 6, 7, 8]"
       and intensity = "[9]" and float_mem = "\<lambda>_. [0, 0, 0, 0]" and ppmDifference = "Finite 10"
       and standby = "[1, 2, 3, 4, 5]" and pageNumber = 5 and startPage = 16
       and config = "[0xC0, 0xC1, 42, 0, 0xC4]" and appointments = "[1, 2, 3, 4, 5, 6, 7, 8, 9]"
       and ?v1.0 = 1 and ?v2.0 = 2 and ?v3.0 = 3]
  by code_simp

section \<open>C6: the version query\<close>

lemma snd_AppGetVersion_replies_with:
  "snd (AppGetVersion bo (replies_with (c_char CHR ''v'') [b0, b1, b2, b3, b4, b5])) =
     Inr \<lparr>major = APP_SWAP_ENDIAN_16 bo (u16_of_mem bo b0 b1),
          minor = APP_SWAP_ENDIAN_16 bo (u16_of_mem bo b2 b3),
          revision = APP_SWAP_ENDIAN_16 bo (u16_of_mem bo b4 b5)\<rparr>"
  by (simp add: AppGetVersion_def outcome_simps replies_with_def sizeof_AppVersionType_def
        AppVersionType_of_mem_def load16_def Let_def)

text \<open>
  C6. The version query sends the command \<^verbatim>\<open>v\<close> without a payload and expects six
  bytes. On a host of any byte order it swaps each of the three members it read from
  the receive buffer, which gives the big-endian value of each pair of device bytes.
  On a little-endian host the device bytes 00 01 00 02 00 03 decode to version 1.2.3.
\<close>

theorem version_query:
  "fst (AppGetVersion bo link) =
     \<lparr>sentCmd = c_char CHR ''v'', sentBuf = [], sentLen = 0, recvMax = 6\<rparr> \<and>
   snd (AppGetVersion bo (replies_with (c_char CHR ''v'') [b0, b1, b2, b3, b4, b5])) =
     Inr \<lparr>major = APP_SWAP_ENDIAN_16 bo (u16_of_mem bo b0 b1),
          minor = APP_SWAP_ENDIAN_16 bo (u16_of_mem bo b2 b3),
          revision = APP_SWAP_ENDIAN_16 bo (u16_of_mem bo b4 b5)\<rparr> \<and>
   snd (AppGetVersion bo (replies_with (c_char CHR ''v'') [b0, b1, b2, b3, b4, b5])) =
     Inr \<lparr>major = of_wire16 b0 b1, minor = of_wire16 b2 b3, revision = of_wire16 b4 b5\<rparr> \<and>
   snd (AppGetVersion ORDER_LITTLE_ENDIAN
          (replies_with (c_char CHR ''v'') [0x00, 0x01, 0x00, 0x02, 0x00, 0x03])) =
     Inr \<lparr>major = 1, minor = 2, revision = 3\<rparr>"
proof -
  have sent: "fst (AppGetVersion bo link) =
      \<lparr>sentCmd = c_char CHR ''v'', sentBuf = [], sentLen = 0, recvMax = 6\<rparr>"
    by (simp add: AppGetVersion_def outcome_simps sizeof_AppVersionType_def)
  have little: "snd (AppGetVersion ORDER_LITTLE_ENDIAN
          (replies_with (c_char CHR ''v'') [0x00, 0x01, 0x00, 0x02, 0x00, 0x03])) =
     Inr \<lparr>major = 1, minor = 2, revision = 3\<rparr>"
    by (simp add: snd_AppGetVersion_replies_with swap_u16_of_mem of_wire16_def)
  show ?thesis
    using sent little by (simp add: snd_AppGetVersion_replies_with swap_u16_of_mem)
qed

section \<open>C7: the echoed page number\<close>

text \<open>
  C7 says that an echoed page number different from the requested one always ends in
  the bad-page-number error. The code compares the page numbers only after
  \<^verbatim>\<open>AppSendAndReceive\<close> returned: a reply to the request for page 5 that carries
  page 7 under another command exits with the invalid-answer-command error.
\<close>

theorem other_page_behind_wrong_tag:
  "echoed_page
     (recvBuf (answer (wrong_tag (echo_page 7 sim_device))
        (AppGetFlashConfigPage example_app_h ORDER_LITTLE_ENDIAN
           (wrong_tag (echo_page 7 sim_device)) 5))) 0 = 7 \<and>
   snd (AppGetFlashConfigPage example_app_h ORDER_LITTLE_ENDIAN
          (wrong_tag (echo_page 7 sim_device)) 5) =
     Inl (InvalidAnswerCommand (c_char CHR ''g'')) \<and>
   snd (AppGetFlashConfigPage example_app_h ORDER_LITTLE_ENDIAN
          (wrong_tag (echo_page 7 sim_device)) 5) \<noteq> Inl (BadPageNumber 7)"
  by code_simp

text \<open>
  C7, amended. For the flash page get and the flash sector erase, on a reply that has
  the command sent and the expected length, the page number of the reply is read in
  wire order, that is swapped to host order, and compared with the page number
  requested: when it differs the operation exits with the bad-page-number error
  naming the echoed value, when it is equal the operation returns.
\<close>

theorem flash_echo_is_checked:
  "(valid_reply link (AppGetFlashConfigPage h bo link pageNumber) \<and>
    Suc (offsetof_AppFlashConfigPageType_pageNumber h)
      < length (recvBuf (answer link (AppGetFlashConfigPage h bo link pageNumber))) \<longrightarrow>
    snd (AppGetFlashConfigPage h bo link pageNumber) =
      (if echoed_page (recvBuf (answer link (AppGetFlashConfigPage h bo link pageNumber)))
            (offsetof_AppFlashConfigPageType_pageNumber h) \<noteq> pageNumber
       then Inl (BadPageNumber
              (echoed_page (recvBuf (answer link (AppGetFlashConfigPage h bo link pageNumber)))
                 (offsetof_AppFlashConfigPageType_pageNumber h)))
       else Inr (store16 bo (recvBuf (answer link (AppGetFlashConfigPage h bo link pageNumber)))
              (offsetof_AppFlashConfigPageType_pageNumber h) pageNumber))) \<and>
   (valid_reply link (AppEraseFlashConfigSector bo link startPage) \<longrightarrow>
    snd (AppEraseFlashConfigSector bo link startPage) =
      (if echoed_page (recvBuf (answer link (AppEraseFlashConfigSector bo link startPage))) 0
            \<noteq> startPage
       then Inl (BadPageNumber
              (echoed_page (recvBuf (answer link (AppEraseFlashConfigSector bo link startPage))) 0))
       else Inr ()))"
  by (simp add: snd_AppGetFlashConfigPage snd_AppEraseFlashConfigSector Let_def)

text \<open>
  The theorem on a device that answers page 7 to a request for page 5, with the
  command and the length as expected.
\<close>

theorem flash_echo_is_checked_witness:
  "valid_reply (echo_page 7 sim_device)
     (AppGetFlashConfigPage example_app_h ORDER_LITTLE_ENDIAN (echo_page 7 sim_device) 5) \<and>
   Suc (offsetof_AppFlashConfigPageType_pageNumber example_app_h)
     < length (recvBuf (answer (echo_page 7 sim_device)
         (AppGetFlashConfigPage example_app_h ORDER_LITTLE_ENDIAN (echo_page 7 sim_device) 5))) \<and>
   snd (AppGetFlashConfigPage example_app_h ORDER_LITTLE_ENDIAN (echo_page 7 sim_device) 5) =
     Inl (BadPageNumber 7) \<and>
   valid_reply (echo_page 7 sim_device)
     (AppEraseFlashConfigSector ORDER_LITTLE_ENDIAN (echo_page 7 sim_device) 5) \<and>
   snd (AppEraseFlashConfigSector ORDER_LITTLE_ENDIAN (echo_page 7 sim_device) 5) =
     Inl (BadPageNumber 7)"
  using flash_echo_is_checked
    [where link = "echo_page 7 sim_device" and h = example_app_h and bo = ORDER_LITTLE_ENDIAN
       and pageNumber = 5 and startPage = 5]
  by code_simp

section \<open>C8: the flash clock configuration\<close>

lemma take_2_drop: "Suc off < length xs \<Longrightarrow> take 2 (drop off xs) = [xs ! off, xs ! Suc off]"
proof -
  assume len: "Suc off < length xs"
  then have "drop off xs = xs ! off # drop (Suc off) xs"
    by (simp add: Cons_nth_drop_Suc)
  moreover from len have "drop (Suc off) xs = xs ! Suc off # drop (Suc (Suc off)) xs"
    by (simp add: Cons_nth_drop_Suc)
  ultimately show ?thesis by (simp add: numeral_2_eq_2)
qed

text \<open>
  C8. The flash clock configuration is sent under the command \<^verbatim>\<open>F\<close> as the caller's
  object with the two bytes of its page-number member replaced by the page number in
  big-endian order, high byte first, and every other byte as the caller has it. When
  the operation returns, the caller's object is again the object that was passed in:
  the page number is back in host order and no other member has changed.
\<close>

theorem flash_clock_config_swaps_and_restores:
  "off = offsetof_AppFlashClockConfigType_pageNumber h \<Longrightarrow> Suc off < length config \<Longrightarrow>
   fst (AppSetFlashClockConfig h bo link config) =
     \<lparr>sentCmd = c_char CHR ''F'',
      sentBuf = config[off := hi8 (load16 bo config off), Suc off := lo8 (load16 bo config off)],
      sentLen = sizeof_AppFlashClockConfigType h, recvMax = 2\<rparr> \<and>
   take 2 (drop off (sentBuf (fst (AppSetFlashClockConfig h bo link config)))) =
     wire16 (load16 bo config off) \<and>
   (snd (AppSetFlashClockConfig h bo link config) = Inr c \<longrightarrow> c = config)"
proof -
  assume off: "off = offsetof_AppFlashClockConfigType_pageNumber h" and len: "Suc off < length config"
  have sent: "fst (AppSetFlashClockConfig h bo link config) =
     \<lparr>sentCmd = c_char CHR ''F'',
      sentBuf = config[off := hi8 (load16 bo config off), Suc off := lo8 (load16 bo config off)],
      sentLen = sizeof_AppFlashClockConfigType h, recvMax = 2\<rparr>"
    using off by (simp add: AppSetFlashClockConfig_def outcome_simps Let_def swap_member_wire)
  have wire: "take 2 (drop off (sentBuf (fst (AppSetFlashClockConfig h bo link config)))) =
     wire16 (load16 bo config off)"
    using len by (simp add: sent wire16_def take_2_drop)
  have restored: "snd (AppSetFlashClockConfig h bo link config) = Inr c \<longrightarrow> c = config"
    using off len
    by (auto simp add: AppSetFlashClockConfig_def outcome_simps Let_def swap_member_swap_member
          split: if_splits)
  show ?thesis using sent wire restored by simp
qed

text \<open>
  The theorem on a little-endian host for a configuration with page number 42: the
  frame carries the bytes 00 2A, and the caller gets the object back as it was.
\<close>

theorem flash_clock_config_swaps_and_restores_witness:
  "2 = offsetof_AppFlashClockConfigType_pageNumber example_app_h \<and>
   Suc 2 < length [0xC0, 0xC1, 42, 0, 0xC4 :: u8] \<and>
   load16 ORDER_LITTLE_ENDIAN [0xC0, 0xC1, 42, 0, 0xC4] 2 = 42 \<and>
   sentBuf (fst (AppSetFlashClockConfig example_app_h ORDER_LITTLE_ENDIAN sim_device
                   [0xC0, 0xC1, 42, 0, 0xC4])) = [0xC0, 0xC1, 0, 42, 0xC4] \<and>
   snd (AppSetFlashClockConfig example_app_h ORDER_LITTLE_ENDIAN sim_device
          [0xC0, 0xC1, 42, 0, 0xC4]) = Inr [0xC0, 0xC1, 42, 0, 0xC4]"
  using flash_clock_config_swaps_and_restores
    [where off = 2 and h = example_app_h and bo = ORDER_LITTLE_ENDIAN and link = sim_device
       and config = "[0xC0, 0xC1, 42, 0, 0xC4]" and c = "[0xC0, 0xC1, 42, 0, 0xC4]"]
  by code_simp

section \<open>C5: the limit on the RTC calibration value\<close>

text \<open>
  What the two tests of \<^verbatim>\<open>AppSetRtcCalibration\<close> achieve: every value that is not a
  NaN is sent inside the closed range from -189 to 189, a value inside the range is
  sent as it is, and 250, -250 and 10 are sent as 189, -189 and 10.
\<close>

lemma sent_AppSetRtcCalibration:
  "sentBuf (fst (AppSetRtcCalibration h float_mem link ppmDifference)) =
     float_mem (limit_ppm ppmDifference)"
  by (simp add: AppSetRtcCalibration_def outcome_simps)

lemma limit_ppm_in_range: "p \<noteq> NaN \<Longrightarrow> in_ppm_range (limit_ppm p)"
  by (cases p) (auto simp add: limit_ppm_def APP_PPM_LIMIT_def float_lt_def)

lemma limit_ppm_unchanged: "in_ppm_range p \<Longrightarrow> limit_ppm p = p"
  by (cases p) (auto simp add: limit_ppm_def APP_PPM_LIMIT_def float_lt_def)

lemma limit_ppm_examples:
  "limit_ppm (Finite 250) = Finite 189"
  "limit_ppm (Finite (- 250)) = Finite (- 189)"
  "limit_ppm (Finite 10) = Finite 10"
  "limit_ppm PlusInfinity = Finite 189"
  "limit_ppm MinusInfinity = Finite (- 189)"
  by (simp_all add: limit_ppm_def APP_PPM_LIMIT_def float_lt_def)

text \<open>
  C5. The claim covers every PPM input. A NaN passes both tests of lines 188-193,
  because a comparison with a NaN is false, and is handed to the link layer as it is:
  the value sent is then not inside the range from -189 to 189.
\<close>

theorem rtc_calibration_nan_is_sent:
  "limit_ppm NaN = NaN \<and>
   \<not> in_ppm_range (limit_ppm NaN) \<and>
   sentBuf (fst (AppSetRtcCalibration h float_mem link NaN)) = float_mem NaN"
  by (simp add: sent_AppSetRtcCalibration) (simp add: limit_ppm_def APP_PPM_LIMIT_def float_lt_def)

end
